theory Spec2Isabelle
  imports Main "HOL-Library.List_Lexorder" "HOL-Library.Char_ord" "HOL-Library.Log_Nat"
begin

section \<open>Documents, store and replies\<close>

text \<open>
  Object ids are strings. A \<open>Date\<close> is its time value, the milliseconds since the epoch.
  Time-of-day fields are the strings of the schema (\<open>"HH:MM"\<close>); the query operators
  \<open>$lt\<close>, \<open>$gt\<close> and \<open>$gte\<close> compare strings byte by byte, which is the lexicographic
  order on \<open>string\<close>. Status fields are the strings the schemas enumerate.
  Free-text fields that no validator, query or branch reads (notes, titles, messages,
  payloads of populated documents) are left out of the records.
\<close>

type_synonym objectId = string
type_synonym date = int

record expert =
  e_user :: objectId
  consultationFee :: nat

record consultation =
  c_user :: objectId
  c_expert :: objectId
  c_date :: date
  c_startTime :: string
  c_endTime :: string
  c_amount :: nat
  c_status :: string

record communicationLog =
  l_user :: objectId
  l_type :: string
  l_direction :: string
  l_subject :: string
  l_content :: string
  l_relatedTo :: string
  l_referenceModel :: string
  l_initiatedBy :: objectId

record notification =
  n_user :: objectId
  n_type :: string
  n_priority :: string

record store =
  experts :: "objectId \<rightharpoonup> expert"
  consultations :: "consultation list"
  logs :: "communicationLog list"
  notifications :: "notification list"

text \<open>
  A reply is the HTTP status with its JSON body: a message, a message with the text of
  the caught error (the \<open>catch\<close> blocks of the controllers), the messages of the failed
  request validators, or a document.
\<close>

datatype 'd body = Message string | Failure string string | Errors "string list" | Document 'd

type_synonym 'd reply = "nat \<times> 'd body"

section \<open>Expert consultations (controllers/expertController.js, models/ExpertConsultation.js)\<close>

subsection \<open>checkExpertAvailability\<close>

text \<open>
  The filter of \<open>ExpertConsultation.findOne\<close>: same expert, same date, one of the two
  \<open>$or\<close> clauses on the time strings, and a status outside \<open>['cancelled', 'rejected']\<close>.
\<close>

definition conflictQuery :: "objectId \<Rightarrow> date \<Rightarrow> string \<Rightarrow> string \<Rightarrow> consultation \<Rightarrow> bool" where
  "conflictQuery expertId dt startTime endTime c =
     (c_expert c = expertId \<and> c_date c = dt \<and>
      ((c_startTime c < endTime \<and> c_endTime c > startTime) \<or>
       (c_startTime c \<ge> startTime \<and> c_startTime c < endTime)) \<and>
      c_status c \<notin> set [''cancelled'', ''rejected''])"

definition checkExpertAvailability :: "store \<Rightarrow> objectId \<Rightarrow> date \<Rightarrow> string \<Rightarrow> string \<Rightarrow> bool" where
  "checkExpertAvailability db expertId dt startTime endTime =
     (case find (conflictQuery expertId dt startTime endTime) (consultations db) of
        Some existing \<Rightarrow> False
      | None \<Rightarrow> True)"

subsection \<open>Saving a consultation: schema validators, pre-save hook, unique index\<close>

text \<open>
  \<open>new Date(`1970-01-01T${t}:00`)\<close>. For a string in the date-time format of the
  language (\<open>HH\<close> from 00 to 23 and \<open>MM\<close> from 00 to 59, or 24:00) the time value is
  that time of day, counted here in milliseconds from local midnight of that day. For
  any other string the language leaves the parse to the engine: it is the parameter
  \<open>legacy\<close>, \<open>None\<close> being an invalid Date.
\<close>

definition isDigit :: "char \<Rightarrow> bool" where
  "isDigit ch = (CHR ''0'' \<le> ch \<and> ch \<le> CHR ''9'')"

definition digitVal :: "char \<Rightarrow> nat" where
  "digitVal ch = of_char ch - 48"

fun isoTime :: "string \<Rightarrow> nat option" where
  "isoTime [h1, h2, sep, m1, m2] =
     (if isDigit h1 \<and> isDigit h2 \<and> sep = CHR '':'' \<and> isDigit m1 \<and> isDigit m2 then
        (let h = 10 * digitVal h1 + digitVal h2; m = 10 * digitVal m1 + digitVal m2
         in if (h < 24 \<and> m < 60) \<or> (h = 24 \<and> m = 0) then Some (60 * h + m) else None)
      else None)"
| "isoTime t = None"

definition parseDate :: "(string \<Rightarrow> int option) \<Rightarrow> string \<Rightarrow> int option" where
  "parseDate legacy t =
     (case isoTime t of Some minutes \<Rightarrow> Some (60000 * int minutes) | None \<Rightarrow> legacy t)"

text \<open>\<open>start >= end\<close> on two Dates: false as soon as one of them is invalid (NaN).\<close>

definition dateGe :: "int option \<Rightarrow> int option \<Rightarrow> bool" where
  "dateGe a b = (case a of None \<Rightarrow> False | Some x \<Rightarrow> (case b of None \<Rightarrow> False | Some y \<Rightarrow> x \<ge> y))"

text \<open>The validators of the schema: required paths, and the enum of \<open>status\<close>.\<close>

definition consultationStatusEnum :: "string list" where
  "consultationStatusEnum = [''scheduled'', ''confirmed'', ''completed'', ''cancelled'', ''no-show'']"

definition consultationValid :: "consultation \<Rightarrow> bool" where
  "consultationValid c =
     (c_user c \<noteq> [] \<and> c_expert c \<noteq> [] \<and> c_startTime c \<noteq> [] \<and> c_endTime c \<noteq> [] \<and>
      c_status c \<in> set consultationStatusEnum)"

text \<open>The \<open>pre('save')\<close> hook for a new document, whose fresh \<open>_id\<close> differs from every stored one.\<close>

definition preSave :: "(string \<Rightarrow> int option) \<Rightarrow> store \<Rightarrow> consultation \<Rightarrow> string + unit" where
  "preSave legacy db c =
     (if dateGe (parseDate legacy (c_startTime c)) (parseDate legacy (c_endTime c)) then
        Inl ''End time must be after start time''
      else
        (case find (\<lambda>x. c_expert x = c_expert c \<and> c_date x = c_date c \<and>
                         c_startTime x = c_startTime c \<and>
                         c_status x \<in> set [''scheduled'', ''confirmed'']) (consultations db) of
           Some existing \<Rightarrow> Inl ''This time slot is already booked''
         | None \<Rightarrow> Inr ()))"

text \<open>The unique index on \<open>{date, startTime, expert}\<close>, whatever the status of the stored document.\<close>

definition duplicateKey :: "store \<Rightarrow> consultation \<Rightarrow> bool" where
  "duplicateKey db c =
     (find (\<lambda>x. c_date x = c_date c \<and> c_startTime x = c_startTime c \<and> c_expert x = c_expert c)
        (consultations db) \<noteq> None)"

definition consultationSave :: "(string \<Rightarrow> int option) \<Rightarrow> store \<Rightarrow> consultation \<Rightarrow> string + store" where
  "consultationSave legacy db c =
     (if \<not> consultationValid c then Inl ''ExpertConsultation validation failed''
      else
        (case preSave legacy db c of
           Inl err \<Rightarrow> Inl err
         | Inr u \<Rightarrow>
             if duplicateKey db c then Inl ''E11000 duplicate key error''
             else Inr (db\<lparr>consultations := consultations db @ [c]\<rparr>)))"

subsection \<open>CommunicationLog.log and logConsultationActivity\<close>

definition logTypeEnum :: "string list" where
  "logTypeEnum = [''chat'', ''ticket'', ''email'', ''whatsapp'', ''call'', ''notification'']"

definition logDirectionEnum :: "string list" where
  "logDirectionEnum = [''inbound'', ''outbound'']"

definition logRelatedToEnum :: "string list" where
  "logRelatedToEnum = [''booking'', ''property'', ''payment'', ''account'', ''general'', ''support'']"

definition logReferenceModelEnum :: "string list" where
  "logReferenceModelEnum = [''Chat'', ''Ticket'', ''ExpertConsultation'', ''Booking'', ''User'']"

definition logValid :: "communicationLog \<Rightarrow> bool" where
  "logValid l =
     (l_user l \<noteq> [] \<and> l_type l \<in> set logTypeEnum \<and> l_direction l \<in> set logDirectionEnum \<and>
      l_content l \<noteq> [] \<and> l_relatedTo l \<in> set logRelatedToEnum \<and>
      l_referenceModel l \<in> set logReferenceModelEnum)"

text \<open>The static \<open>log\<close>: it saves the entry, and rethrows what \<open>save\<close> throws.\<close>

definition CommunicationLog_log :: "store \<Rightarrow> communicationLog \<Rightarrow> string + store" where
  "CommunicationLog_log db l =
     (if logValid l then Inr (db\<lparr>logs := logs db @ [l]\<rparr>)
      else Inl ''CommunicationLog validation failed'')"

text \<open>\<open>action.replace(/_/g, ' ')\<close>\<close>

definition replaceUnderscores :: "string \<Rightarrow> string" where
  "replaceUnderscores s = map (\<lambda>ch. if ch = CHR ''_'' then CHR '' '' else ch) s"

definition logConsultationActivity :: "store \<Rightarrow> consultation \<Rightarrow> string \<Rightarrow> objectId \<Rightarrow> string + store" where
  "logConsultationActivity db c action userId =
     CommunicationLog_log db
       \<lparr>l_user = userId,
        l_type = ''consultation'',
        l_direction = ''outbound'',
        l_subject = ''Consultation '' @ replaceUnderscores action,
        l_content = ''Consultation was '' @ replaceUnderscores action,
        l_relatedTo = ''consultation'',
        l_referenceModel = ''ExpertConsultation'',
        l_initiatedBy = userId\<rparr>"

subsection \<open>notifyExpertAboutBooking\<close>

definition notificationTypeEnum :: "string list" where
  "notificationTypeEnum =
     [''enquiry_created'', ''enquiry_replied'', ''visit_requested'', ''visit_responded'', ''general'']"

definition notificationPriorityEnum :: "string list" where
  "notificationPriorityEnum = [''low'', ''normal'', ''high'']"

definition notificationValid :: "notification \<Rightarrow> bool" where
  "notificationValid n =
     (n_user n \<noteq> [] \<and> n_type n \<in> set notificationTypeEnum \<and>
      n_priority n \<in> set notificationPriorityEnum)"

text \<open>
  The socket emit that follows a saved notification writes nothing to the store.
\<close>

definition notifyExpertAboutBooking :: "store \<Rightarrow> consultation \<Rightarrow> string + store" where
  "notifyExpertAboutBooking db c =
     (case experts db (c_expert c) of
        None \<Rightarrow> Inr db
      | Some ex \<Rightarrow>
          (let n = \<lparr>n_user = e_user ex, n_type = ''new_consultation'', n_priority = ''high''\<rparr>
           in if notificationValid n then Inr (db\<lparr>notifications := notifications db @ [n]\<rparr>)
              else Inl ''Notification validation failed''))"

subsection \<open>bookConsultation\<close>

record bookingBody =
  expertId :: objectId
  date :: date
  startTime :: string
  endTime :: string

definition bookConsultation ::
  "(string \<Rightarrow> int option) \<Rightarrow> store \<Rightarrow> objectId \<Rightarrow> bookingBody \<Rightarrow> store \<times> consultation reply" where
  "bookConsultation legacy db userId req =
     (case experts db (expertId req) of
        None \<Rightarrow> (db, (404, Message ''Expert not found''))
      | Some ex \<Rightarrow>
          if \<not> checkExpertAvailability db (expertId req) (date req) (startTime req) (endTime req)
          then (db, (400, Message ''Selected time slot is not available''))
          else
            (let c = \<lparr>c_user = userId, c_expert = expertId req, c_date = date req,
                      c_startTime = startTime req, c_endTime = endTime req,
                      c_amount = consultationFee ex, c_status = ''scheduled''\<rparr>
             in case consultationSave legacy db c of
                  Inl err \<Rightarrow> (db, (500, Failure ''Failed to book consultation'' err))
                | Inr db1 \<Rightarrow>
                    (case logConsultationActivity db1 c ''booked'' userId of
                       Inl err \<Rightarrow> (db1, (500, Failure ''Failed to book consultation'' err))
                     | Inr db2 \<Rightarrow>
                         (case notifyExpertAboutBooking db2 c of
                            Inl err \<Rightarrow> (db2, (500, Failure ''Failed to book consultation'' err))
                          | Inr db3 \<Rightarrow> (db3, (201, Document c))))))"

section \<open>Visits, owner responses and property views\<close>

text \<open>
  \<open>req.user\<close> as the \<open>auth\<close> middleware leaves it: the stored user document.
\<close>

record user =
  u_id :: objectId
  u_role :: string

record view =
  v_user :: "objectId option"
  v_viewedAt :: int
  v_ipAddress :: "string option"

text \<open>\<open>p_views\<close> and \<open>p_bookings\<close> are \<open>analytics.views\<close> and \<open>analytics.bookings\<close>.\<close>

record property =
  p_owner :: objectId
  p_isActive :: bool
  p_isVisible :: bool
  p_views :: nat
  p_bookings :: nat
  viewedBy :: "view list"

text \<open>
  A booking of type \<open>'visit'\<close> carries a visit date and slot. The move-in fields that the
  schema requires of type \<open>'booking'\<close> are not modelled: stored documents have them.
\<close>

record booking =
  b_id :: objectId
  b_user :: objectId
  b_property :: objectId
  b_owner :: objectId
  b_bookingType :: string
  b_status :: string
  b_visitDate :: "date option"
  b_visitTimeSlot :: string
  b_tokenAmount :: nat

record review =
  r_property :: objectId
  r_rating :: nat
  r_isActive :: bool

record rentalStore =
  users :: "objectId \<rightharpoonup> user"
  properties :: "objectId \<rightharpoonup> property"
  bookings :: "booking list"
  reviews :: "review list"

text \<open>
  The library functions that the routes call and the repository does not define: the
  two request validators and \<open>new Date(string)\<close> (\<open>None\<close> is an invalid Date).
\<close>

record env =
  isMongoId :: "string \<Rightarrow> bool"
  isISO8601 :: "string \<Rightarrow> bool"
  newDate :: "string \<Rightarrow> date option"

subsection \<open>authorize (middleware)\<close>

definition authorize :: "string list \<Rightarrow> user \<Rightarrow> string option" where
  "authorize roles usr =
     (if u_role usr = [] then Some ''Access denied. User role not found.''
      else if u_role usr \<notin> set roles then
        Some ''Access denied. You do not have permission to perform this action.''
      else None)"

subsection \<open>Saving a booking: the validators of the Booking schema\<close>

definition bookingTypeEnum :: "string list" where
  "bookingTypeEnum = [''visit'', ''booking'', ''application'']"

definition bookingStatusEnum :: "string list" where
  "bookingStatusEnum = [''pending'', ''confirmed'', ''cancelled'', ''completed'']"

definition bookingValid :: "booking \<Rightarrow> bool" where
  "bookingValid b =
     (b_user b \<noteq> [] \<and> b_property b \<noteq> [] \<and> b_owner b \<noteq> [] \<and>
      b_bookingType b \<in> set bookingTypeEnum \<and> b_status b \<in> set bookingStatusEnum \<and>
      (if b_bookingType b = ''visit'' then b_visitDate b \<noteq> None \<and> b_visitTimeSlot b \<noteq> []
       else True))"

text \<open>\<open>save\<close> of a new document inserts it; \<open>save\<close> of a loaded document replaces it by \<open>_id\<close>.\<close>

definition bookingInsert :: "rentalStore \<Rightarrow> booking \<Rightarrow> string + rentalStore" where
  "bookingInsert db b =
     (if bookingValid b then Inr (db\<lparr>bookings := bookings db @ [b]\<rparr>)
      else Inl ''Booking validation failed'')"

definition bookingUpdate :: "rentalStore \<Rightarrow> booking \<Rightarrow> string + rentalStore" where
  "bookingUpdate db b =
     (if bookingValid b then
        Inr (db\<lparr>bookings := map (\<lambda>x. if b_id x = b_id b then b else x) (bookings db)\<rparr>)
      else Inl ''Booking validation failed'')"

subsection \<open>POST /api/bookings/visit (routes/bookings.js)\<close>

record visitBody =
  vb_property :: string
  visitDate :: string
  visitTimeSlot :: string

definition visitErrors :: "env \<Rightarrow> visitBody \<Rightarrow> string list" where
  "visitErrors ev req =
     (if isMongoId ev (vb_property req) then [] else [''Valid property ID is required'']) @
     (if isISO8601 ev (visitDate req) then [] else [''Valid visit date is required'']) @
     (if visitTimeSlot req \<noteq> [] then [] else [''Time slot is required''])"

text \<open>
  The module does not import \<open>Notification\<close> (the \<open>require\<close> is commented out), so the
  notification block throws a ReferenceError; its own \<open>try\<close>/\<open>catch\<close> swallows it and
  nothing is written.
\<close>

definition postVisit :: "env \<Rightarrow> rentalStore \<Rightarrow> user \<Rightarrow> objectId \<Rightarrow> visitBody \<Rightarrow> rentalStore \<times> booking reply" where
  "postVisit ev db usr newId req =
     (case authorize [''tenant''] usr of
        Some denied \<Rightarrow> (db, (403, Message denied))
      | None \<Rightarrow>
          if visitErrors ev req \<noteq> [] then (db, (400, Errors (visitErrors ev req)))
          else
            (case properties db (vb_property req) of
               None \<Rightarrow> (db, (404, Message ''Property not found''))
             | Some prop \<Rightarrow>
                 (case find (\<lambda>b. b_user b = u_id usr \<and> b_property b = vb_property req \<and>
                                  b_bookingType b = ''visit'' \<and>
                                  b_status b \<in> set [''pending'', ''confirmed'']) (bookings db) of
                    Some existingVisit \<Rightarrow>
                      (db, (400, Message ''You already have a pending visit request for this property''))
                  | None \<Rightarrow>
                      (case users db (p_owner prop) of
                         None \<Rightarrow> (db, (500, Message ''Server error''))
                       | Some owner \<Rightarrow>
                           (let b = \<lparr>b_id = newId, b_user = u_id usr, b_property = vb_property req,
                                     b_owner = p_owner prop, b_bookingType = ''visit'',
                                     b_status = ''pending'',
                                     b_visitDate = newDate ev (visitDate req),
                                     b_visitTimeSlot = visitTimeSlot req, b_tokenAmount = 0\<rparr>
                            in case bookingInsert db b of
                                 Inl err \<Rightarrow> (db, (500, Message ''Server error''))
                               | Inr db1 \<Rightarrow> (db1, (201, Document b)))))))"

subsection \<open>PUT /api/owner/booking/:id/respond (routes/owner.js)\<close>

text \<open>
  The module imports Property, Booking, Enquiry and Favorite only, so evaluating the
  identifier \<open>Notification\<close> throws a ReferenceError before anything is created.
\<close>

definition Notification_create :: "rentalStore \<Rightarrow> string + rentalStore" where
  "Notification_create db = Inl ''Notification is not defined''"

definition putBookingRespond :: "rentalStore \<Rightarrow> user \<Rightarrow> objectId \<Rightarrow> string \<Rightarrow> rentalStore \<times> booking reply" where
  "putBookingRespond db usr bookingId status =
     (case authorize [''owner''] usr of
        Some denied \<Rightarrow> (db, (403, Message denied))
      | None \<Rightarrow>
          if status \<notin> set [''confirmed'', ''rejected''] then (db, (400, Errors [''Invalid value'']))
          else
            (case find (\<lambda>b. b_id b = bookingId) (bookings db) of
               None \<Rightarrow> (db, (404, Message ''Booking not found''))
             | Some b \<Rightarrow>
                 (case properties db (b_property b) of
                    None \<Rightarrow> (db, (500, Message ''Server error''))
                  | Some prop \<Rightarrow>
                      if p_owner prop \<noteq> u_id usr then (db, (403, Message ''Access denied''))
                      else
                        (case bookingUpdate db (b\<lparr>b_status := status\<rparr>) of
                           Inl err \<Rightarrow> (db, (500, Message ''Server error''))
                         | Inr db1 \<Rightarrow>
                             (case Notification_create db1 of
                                Inl err \<Rightarrow> (db1, (500, Message ''Server error''))
                              | Inr db2 \<Rightarrow> (db2, (200, Document (b\<lparr>b_status := status\<rparr>))))))))"

subsection \<open>View tracking of GET /:id (the property routes)\<close>

text \<open>
  \<open>userId\<close> is \<open>req.user?._id\<close> (\<open>None\<close> for undefined), \<open>userIP\<close> is
  \<open>req.ip || req.connection.remoteAddress\<close>, \<open>now\<close> is the clock of the request.
  A value is truthy when it is defined and not the empty string.
\<close>

definition truthyValue :: "string option \<Rightarrow> string option" where
  "truthyValue v = (case v of None \<Rightarrow> None | Some s \<Rightarrow> if s = [] then None else Some s)"

definition dayMs :: int where
  "dayMs = 24 * 60 * 60 * 1000"

definition alreadyViewed :: "property \<Rightarrow> objectId \<Rightarrow> bool" where
  "alreadyViewed prop uid =
     list_ex (\<lambda>v. case v_user v of None \<Rightarrow> False | Some u \<Rightarrow> u = uid) (viewedBy prop)"

definition alreadyViewedByIP :: "property \<Rightarrow> string option \<Rightarrow> int \<Rightarrow> bool" where
  "alreadyViewedByIP prop userIP now =
     list_ex (\<lambda>v. v_ipAddress v = userIP \<and> now - v_viewedAt v < dayMs) (viewedBy prop)"

text \<open>\<open>Property.findByIdAndUpdate(id, {$push: {viewedBy: v}, $inc: {'analytics.views': 1}})\<close>\<close>

definition pushView :: "rentalStore \<Rightarrow> objectId \<Rightarrow> view \<Rightarrow> rentalStore" where
  "pushView db pid v =
     (case properties db pid of
        None \<Rightarrow> db
      | Some prop \<Rightarrow>
          db\<lparr>properties := (properties db)(pid \<mapsto>
                prop\<lparr>viewedBy := viewedBy prop @ [v], p_views := p_views prop + 1\<rparr>)\<rparr>)"

text \<open>
  The tracking block of the handler, between the lookup of the property and the query
  for its reviews. \<open>Inl\<close> is an exception that the handler's \<open>catch\<close> turns into a 500:
  reading \<open>property.owner._id\<close> when the populated owner is null.
\<close>

definition trackView ::
  "rentalStore \<Rightarrow> objectId \<Rightarrow> property \<Rightarrow> string option \<Rightarrow> string option \<Rightarrow> int \<Rightarrow> string + rentalStore" where
  "trackView db pid prop userId userIP now =
     (case truthyValue userId of
        Some uid \<Rightarrow>
          (case users db (p_owner prop) of
             None \<Rightarrow> Inl ''Cannot read properties of null''
           | Some owner \<Rightarrow>
               if p_owner prop \<noteq> uid then
                 (if \<not> alreadyViewed prop uid then
                    Inr (pushView db pid \<lparr>v_user = Some uid, v_viewedAt = now, v_ipAddress = userIP\<rparr>)
                  else Inr db)
               else Inr db)
      | None \<Rightarrow>
          if \<not> alreadyViewedByIP prop userIP now then
            Inr (pushView db pid \<lparr>v_user = None, v_viewedAt = now, v_ipAddress = userIP\<rparr>)
          else Inr db)"

text \<open>
  One fetch of the detail page, as far as the store is concerned: 404 leaves it alone,
  an exception leaves it alone, otherwise the tracking block decides.
\<close>

definition fetchProperty ::
  "rentalStore \<Rightarrow> objectId \<Rightarrow> string option \<Rightarrow> string option \<Rightarrow> int \<Rightarrow> rentalStore" where
  "fetchProperty db pid userId userIP now =
     (case properties db pid of
        None \<Rightarrow> db
      | Some prop \<Rightarrow>
          (case trackView db pid prop userId userIP now of Inl err \<Rightarrow> db | Inr db1 \<Rightarrow> db1))"

text \<open>A history of fetches, one after the other: page, \<open>req.user?._id\<close>, address, clock.\<close>

fun fetchAll :: "rentalStore \<Rightarrow> (objectId \<times> string option \<times> string option \<times> int) list \<Rightarrow> rentalStore" where
  "fetchAll db [] = db"
| "fetchAll db ((pid, userId, userIP, now) # rs) =
     fetchAll (fetchProperty db pid userId userIP now) rs"

text \<open>The page \<open>pid\<close> holds a view record of user \<open>uid\<close>.\<close>

definition viewedInv :: "rentalStore \<Rightarrow> objectId \<Rightarrow> objectId \<Rightarrow> bool" where
  "viewedInv db pid uid = (case properties db pid of None \<Rightarrow> False | Some prop \<Rightarrow> alreadyViewed prop uid)"


subsection \<open>auth and optionalAuth: who the viewer is\<close>

text \<open>
  The payload of a verified token. Both verifiers of the repository, the \<open>auth\<close>
  middleware and the socket handshake of the server, look the user up by
  \<open>decoded.userId\<close>; a field \<open>_id\<close> is there only if the signer wrote one. \<open>jwt.verify\<close> is a
  library function, the parameter \<open>verify\<close>, \<open>None\<close> when it throws. The token is the
  Authorization header without its prefix \<open>'Bearer '\<close>; the empty string counts as no
  token.
\<close>

record jwtPayload =
  pl_userId :: "objectId option"
  pl_id :: "objectId option"

text \<open>\<open>auth\<close>: \<open>req.user\<close> is the stored user of \<open>decoded.userId\<close>; \<open>None\<close> is the reply 401.\<close>

definition auth :: "(string \<Rightarrow> jwtPayload option) \<Rightarrow> rentalStore \<Rightarrow> string option \<Rightarrow> user option" where
  "auth verify db token =
     (case token of
        None \<Rightarrow> None
      | Some t \<Rightarrow>
          if t = [] then None
          else (case verify t of
                  None \<Rightarrow> None
                | Some decoded \<Rightarrow>
                    (case pl_userId decoded of None \<Rightarrow> None | Some uid \<Rightarrow> users db uid)))"

text \<open>
  \<open>optionalAuth\<close> of the property routes: \<open>req.user\<close> is the decoded payload itself, and an
  invalid token leaves the request anonymous.
\<close>

definition optionalAuth :: "(string \<Rightarrow> jwtPayload option) \<Rightarrow> string option \<Rightarrow> jwtPayload option" where
  "optionalAuth verify token =
     (case token of None \<Rightarrow> None | Some t \<Rightarrow> if t = [] then None else verify t)"

text \<open>
  GET /:id behind \<open>optionalAuth\<close>, as far as the store is concerned: the handler reads
  \<open>req.user?._id\<close>.
\<close>

definition getProperty ::
  "(string \<Rightarrow> jwtPayload option) \<Rightarrow> rentalStore \<Rightarrow> objectId \<Rightarrow> string option \<Rightarrow> string option \<Rightarrow> int \<Rightarrow> rentalStore" where
  "getProperty verify db pid token userIP now =
     fetchProperty db pid
       (case optionalAuth verify token of None \<Rightarrow> None | Some reqUser \<Rightarrow> pl_id reqUser)
       userIP now"

section \<open>Analytics: conversion rate and average rating\<close>

subsection \<open>Numbers\<close>

text \<open>
  The numbers of the language are IEEE 754 doubles. A finite double is modelled by its
  exact value, a rational, and every arithmetic operation rounds the exact result to the
  nearest double, ties to the even significand: \<open>fl\<close>. The significand has 53 bits and
  the exponent of the last bit is at least -1074 (the subnormal range). A result of
  magnitude 2^1024 or more is Infinity in the language; \<open>fl\<close> does not model that, and the
  theorems below bound the counts they speak of.

  \<open>binade q\<close> is the exponent \<open>e\<close> with \<open>2^e \<le> q < 2^(e+1)\<close>, for positive \<open>q\<close>.
\<close>

definition binade :: "rat \<Rightarrow> int" where
  "binade q = (let (a, b) = quotient_of q;
                   e0 = int (floorlog 2 (nat a)) - int (floorlog 2 (nat b))
               in if 2 powi e0 \<le> q then e0 else e0 - 1)"

definition roundHalfEven :: "rat \<Rightarrow> int" where
  "roundHalfEven r = (let f = \<lfloor>r\<rfloor>; d = r - of_int f
                      in if d < 1/2 then f else if d > 1/2 then f + 1
                         else if even f then f else f + 1)"

definition fl :: "rat \<Rightarrow> rat" where
  "fl q = (if q = 0 then 0
           else (let e = max (binade \<bar>q\<bar> - 52) (- 1074)
                 in sgn q * of_int (roundHalfEven (\<bar>q\<bar> / 2 powi e)) * 2 powi e))"

text \<open>
  A decimal string with a fixed number of fraction digits, as \<open>toFixed\<close> prints it:
  \<open>Decimal n d\<close> reads \<open>n / 10^d\<close>. \<open>toFixed\<close> takes the integer \<open>n\<close> for which \<open>n / 10^d\<close> is
  nearest to the exact value of the double, the larger one of two; \<open>parseFloat\<close> gives the
  double nearest to the decimal; \<open>Math.round\<close> rounds half up.
\<close>

datatype decimal = Decimal int nat

definition jsAdd :: "rat \<Rightarrow> rat \<Rightarrow> rat" where
  "jsAdd a b = fl (a + b)"

definition jsMul :: "rat \<Rightarrow> rat \<Rightarrow> rat" where
  "jsMul a b = fl (a * b)"

definition jsDiv :: "rat \<Rightarrow> rat \<Rightarrow> rat" where
  "jsDiv a b = fl (a / b)"

definition toFixed :: "rat \<Rightarrow> nat \<Rightarrow> decimal" where
  "toFixed x digits = Decimal \<lfloor>x * 10 ^ digits + 1/2\<rfloor> digits"

definition parseFloat :: "decimal \<Rightarrow> rat" where
  "parseFloat s = (case s of Decimal n digits \<Rightarrow> fl (of_int n / 10 ^ digits))"

definition Math_round :: "rat \<Rightarrow> rat" where
  "Math_round x = of_int \<lfloor>x + 1/2\<rfloor>"

text \<open>
  \<open>totalViews > 0 ? ((totalBookings / totalViews) * 100).toFixed(2) : 0\<close> and then
  \<open>parseFloat\<close>, the expression of both analytics routes. \<open>parseFloat(0)\<close> reads the
  string "0".
\<close>

definition conversionRate :: "rat \<Rightarrow> rat \<Rightarrow> rat" where
  "conversionRate totalViews totalBookings =
     parseFloat (if totalViews > 0 then toFixed (jsMul (jsDiv totalBookings totalViews) 100) 2
                 else Decimal 0 0)"

text \<open>\<open>reviews.reduce((sum, r) => sum + r.rating, 0)\<close>; ratings are the integers the review routes accept.\<close>

definition sumRatings :: "review list \<Rightarrow> rat" where
  "sumRatings rvs = foldl (\<lambda>sum r. jsAdd sum (of_nat (r_rating r))) 0 rvs"

text \<open>
  GET /analytics of the owner routes, for the properties, bookings and reviews that its
  queries return: conversion rate and average rating.
\<close>

definition ownerAnalytics :: "property list \<Rightarrow> booking list \<Rightarrow> review list \<Rightarrow> rat \<times> rat" where
  "ownerAnalytics props bks rvs =
     (let totalViews = foldl (\<lambda>sum p. jsAdd sum (of_nat (length (viewedBy p)))) 0 props;
          totalBookings = of_nat (length bks);
          averageRating = (if length rvs > 0 then toFixed (jsDiv (sumRatings rvs) (of_nat (length rvs))) 1
                           else Decimal 0 0)
      in (conversionRate totalViews totalBookings, parseFloat averageRating))"

text \<open>GET /api/owner/analytics/:propertyId, from the counters of the property.\<close>

definition propertyConversionRate :: "property \<Rightarrow> rat" where
  "propertyConversionRate prop = conversionRate (of_nat (p_views prop)) (of_nat (p_bookings prop))"

text \<open>GET /:id of the property routes, for the active reviews of the property.\<close>

definition detailAverageRating :: "review list \<Rightarrow> rat" where
  "detailAverageRating rvs =
     (let averageRating = (if length rvs > 0 then jsDiv (sumRatings rvs) (of_nat (length rvs)) else 0)
      in jsDiv (Math_round (jsMul averageRating 10)) 10)"

text \<open>
  The words of the specification: \<open>r\<close> is the number \<open>y\<close> rounded to \<open>digits\<close> decimals when it
  is the double of a decimal with that many digits that is nearest to \<open>y\<close> (either one, at
  a tie). The conversion rate is bookings by views times 100 to 2 decimals, and 0 without
  views; the average rating is the mean to 1 decimal, and 0 without reviews.
\<close>

definition roundedTo :: "nat \<Rightarrow> rat \<Rightarrow> rat \<Rightarrow> bool" where
  "roundedTo digits y r =
     (\<exists>n. r = parseFloat (Decimal n digits) \<and> \<bar>of_int n - y * 10 ^ digits\<bar> \<le> 1/2)"

definition conversionRateSpec :: "nat \<Rightarrow> nat \<Rightarrow> rat \<Rightarrow> bool" where
  "conversionRateSpec nViews nBookings r =
     (if nViews = 0 then r = 0 else roundedTo 2 (of_nat nBookings / of_nat nViews * 100) r)"

definition averageRatingSpec :: "nat list \<Rightarrow> rat \<Rightarrow> bool" where
  "averageRatingSpec ratings r =
     (if ratings = [] then r = 0
      else roundedTo 1 (of_nat (sum_list ratings) / of_nat (length ratings)) r)"

section \<open>Concrete stores and requests\<close>

text \<open>
  Expert \<open>e1\<close> with one stored consultation from 14:00 to 15:00 on 2024-06-01, in a
  status to choose, and requests for the same expert and day. \<open>invalidDate\<close> is an engine
  that rejects every string outside the date-time format.
\<close>

definition invalidDate :: "string \<Rightarrow> int option" where
  "invalidDate t = None"

definition expertE1 :: expert where
  "expertE1 = \<lparr>e_user = ''u9'', consultationFee = 500\<rparr>"

definition slot1415 :: "string \<Rightarrow> consultation" where
  "slot1415 st = \<lparr>c_user = ''u1'', c_expert = ''e1'', c_date = 1717200000000,
      c_startTime = ''14:00'', c_endTime = ''15:00'', c_amount = 500, c_status = st\<rparr>"

definition storeWith :: "consultation list \<Rightarrow> store" where
  "storeWith cs = \<lparr>experts = [''e1'' \<mapsto> expertE1], consultations = cs, logs = [], notifications = []\<rparr>"

definition request :: "string \<Rightarrow> string \<Rightarrow> bookingBody" where
  "request s e = \<lparr>expertId = ''e1'', date = 1717200000000, startTime = s, endTime = e\<rparr>"

definition booked :: "string \<Rightarrow> string \<Rightarrow> consultation" where
  "booked s e = \<lparr>c_user = ''u2'', c_expert = ''e1'', c_date = 1717200000000,
      c_startTime = s, c_endTime = e, c_amount = 500, c_status = ''scheduled''\<rparr>"

text \<open>
  A property of owner \<open>ownerO\<close>, two tenants, and a visit request for 2024-06-01 in the slot
  10:00-11:00. \<open>libEnv\<close> gives the library functions on the strings of these requests: the
  id is a Mongo id, the date is ISO 8601 and parses to midnight UTC of that day.
\<close>

definition libEnv :: env where
  "libEnv = \<lparr>isMongoId = (\<lambda>s. s = ''665a00000000000000000001''),
             isISO8601 = (\<lambda>s. s = ''2024-06-01''),
             newDate = (\<lambda>s. if s = ''2024-06-01'' then Some 1717200000000 else None)\<rparr>"

definition tenantA :: user where "tenantA = \<lparr>u_id = ''tenantA'', u_role = ''tenant''\<rparr>"
definition tenantB :: user where "tenantB = \<lparr>u_id = ''tenantB'', u_role = ''tenant''\<rparr>"
definition ownerO :: user where "ownerO = \<lparr>u_id = ''ownerO'', u_role = ''owner''\<rparr>"

definition flat :: property where
  "flat = \<lparr>p_owner = ''ownerO'', p_isActive = True, p_isVisible = True, p_views = 0,
           p_bookings = 0, viewedBy = []\<rparr>"

definition visitOf :: "objectId \<Rightarrow> objectId \<Rightarrow> string \<Rightarrow> booking" where
  "visitOf bid uid st = \<lparr>b_id = bid, b_user = uid, b_property = ''665a00000000000000000001'',
      b_owner = ''ownerO'', b_bookingType = ''visit'', b_status = st,
      b_visitDate = Some 1717200000000, b_visitTimeSlot = ''10:00-11:00'', b_tokenAmount = 0\<rparr>"

definition rental :: "booking list \<Rightarrow> rentalStore" where
  "rental bs = \<lparr>users = [''tenantA'' \<mapsto> tenantA, ''tenantB'' \<mapsto> tenantB, ''ownerO'' \<mapsto> ownerO],
               properties = [''665a00000000000000000001'' \<mapsto> flat],
               bookings = bs, reviews = []\<rparr>"

definition visitRequest :: visitBody where
  "visitRequest = \<lparr>vb_property = ''665a00000000000000000001'', visitDate = ''2024-06-01'',
                   visitTimeSlot = ''10:00-11:00''\<rparr>"

text \<open>The same property with a list of recorded views, each counted once, from one address.\<close>

definition viewed :: "view list \<Rightarrow> rentalStore" where
  "viewed vs = \<lparr>users = [''ownerO'' \<mapsto> ownerO],
               properties = [''p1'' \<mapsto> flat\<lparr>viewedBy := vs, p_views := length vs\<rparr>],
               bookings = [], reviews = []\<rparr>"

definition viewBy :: "objectId option \<Rightarrow> int \<Rightarrow> view" where
  "viewBy u t = \<lparr>v_user = u, v_viewedAt = t, v_ipAddress = Some ''10.0.0.7''\<rparr>"

text \<open>A review of that property with a given rating.\<close>

definition rated :: "nat \<Rightarrow> review" where
  "rated n = \<lparr>r_property = ''665a00000000000000000001'', r_rating = n, r_isActive = True\<rparr>"

text \<open>
  A tenant \<open>u5\<close> among the users, and a verifier that knows one token, signed for that
  tenant with the payload \<open>{userId: 'u5'}\<close>.
\<close>

definition tenantU5 :: user where
  "tenantU5 = \<lparr>u_id = ''u5'', u_role = ''tenant''\<rparr>"

definition audience :: "view list \<Rightarrow> rentalStore" where
  "audience vs = (viewed vs)\<lparr>users := (users (viewed vs))(''u5'' \<mapsto> tenantU5)\<rparr>"

definition appVerify :: "string \<Rightarrow> jwtPayload option" where
  "appVerify t = (if t = ''token-u5'' then Some \<lparr>pl_userId = Some ''u5'', pl_id = None\<rparr> else None)"

section \<open>Properties of the consultation booking\<close>

lemma find_is_None: "(find P xs = None) = (\<forall>x \<in> set xs. \<not> P x)"
  by (induction xs) auto

lemma checkExpertAvailability_iff:
  "checkExpertAvailability db ex dt s e =
     (\<forall>x \<in> set (consultations db). \<not> conflictQuery ex dt s e x)"
proof (cases "find (conflictQuery ex dt s e) (consultations db)")
  case None
  moreover from None have "\<forall>x \<in> set (consultations db). \<not> conflictQuery ex dt s e x"
    by (simp only: find_is_None)
  ultimately show ?thesis
    by (simp add: checkExpertAvailability_def)
next
  case (Some existing)
  then have "\<not> (\<forall>x \<in> set (consultations db). \<not> conflictQuery ex dt s e x)"
    by (simp only: find_is_None [symmetric]) simp
  with Some show ?thesis
    by (simp add: checkExpertAvailability_def)
qed

lemma conflictQuery_overlap:
  assumes "c_expert x = ex" "c_date x = dt"
    and "c_status x = ''scheduled'' \<or> c_status x = ''confirmed''"
    and "c_startTime x < e" "c_endTime x > s"
  shows "conflictQuery ex dt s e x"
  using assms by (auto simp: conflictQuery_def)

text \<open>
  Claim C1. A request that names a stored expert is answered 400, "Selected time slot is
  not available", and leaves the store as it was, as soon as one stored consultation
  of that expert and date is scheduled or confirmed and overlaps the requested window
  in the half-open sense: its start is before the requested end and its end is after
  the requested start.
\<close>

theorem C1_overlapping_request_rejected:
  assumes "experts db (expertId req) = Some ex"
    and "x \<in> set (consultations db)"
    and "c_expert x = expertId req" and "c_date x = date req"
    and "c_status x = ''scheduled'' \<or> c_status x = ''confirmed''"
    and "c_startTime x < endTime req" and "c_endTime x > startTime req"
  shows "bookConsultation legacy db userId req =
           (db, (400, Message ''Selected time slot is not available''))"
proof -
  have "conflictQuery (expertId req) (date req) (startTime req) (endTime req) x"
    using assms(3-7) by (rule conflictQuery_overlap)
  with assms(2)
  have "\<not> checkExpertAvailability db (expertId req) (date req) (startTime req) (endTime req)"
    by (auto simp: checkExpertAvailability_iff)
  with assms(1) show ?thesis
    by (simp add: bookConsultation_def)
qed

text \<open>The scenario of the specification: confirmed 14:00 to 15:00, request 14:30 to 15:30.\<close>

theorem C1_overlapping_request_rejected_witness:
  "experts (storeWith [slot1415 ''confirmed'']) (expertId (request ''14:30'' ''15:30'')) = Some expertE1 \<and>
   slot1415 ''confirmed'' \<in> set (consultations (storeWith [slot1415 ''confirmed''])) \<and>
   c_expert (slot1415 ''confirmed'') = expertId (request ''14:30'' ''15:30'') \<and>
   c_date (slot1415 ''confirmed'') = date (request ''14:30'' ''15:30'') \<and>
   c_status (slot1415 ''confirmed'') = ''confirmed'' \<and>
   c_startTime (slot1415 ''confirmed'') < endTime (request ''14:30'' ''15:30'') \<and>
   c_endTime (slot1415 ''confirmed'') > startTime (request ''14:30'' ''15:30'') \<and>
   bookConsultation invalidDate (storeWith [slot1415 ''confirmed'']) ''u2'' (request ''14:30'' ''15:30'') =
     (storeWith [slot1415 ''confirmed''], (400, Message ''Selected time slot is not available''))"
proof -
  have h1: "experts (storeWith [slot1415 ''confirmed'']) (expertId (request ''14:30'' ''15:30'')) = Some expertE1"
    by (simp add: storeWith_def request_def)
  have h2: "slot1415 ''confirmed'' \<in> set (consultations (storeWith [slot1415 ''confirmed'']))"
    by (simp add: storeWith_def)
  have h3: "c_expert (slot1415 ''confirmed'') = expertId (request ''14:30'' ''15:30'')"
    by (simp add: slot1415_def request_def)
  have h4: "c_date (slot1415 ''confirmed'') = date (request ''14:30'' ''15:30'')"
    by (simp add: slot1415_def request_def)
  have h5: "c_status (slot1415 ''confirmed'') = ''confirmed''"
    by (simp add: slot1415_def)
  have h6: "c_startTime (slot1415 ''confirmed'') < endTime (request ''14:30'' ''15:30'')"
    by (simp add: slot1415_def request_def)
  have h7: "c_endTime (slot1415 ''confirmed'') > startTime (request ''14:30'' ''15:30'')"
    by (simp add: slot1415_def request_def)
  from h5 have h5': "c_status (slot1415 ''confirmed'') = ''scheduled'' \<or>
      c_status (slot1415 ''confirmed'') = ''confirmed''"
    by (rule disjI2)
  note C1_overlapping_request_rejected [OF h1 h2 h3 h4 h5' h6 h7, of invalidDate "''u2''"]
  with h1 h2 h3 h4 h5 h6 h7 show ?thesis by blast
qed

text \<open>
  Claim C3, as stated, fails: the filter of the availability query excludes the statuses
  \<open>'cancelled'\<close> and \<open>'rejected'\<close> and no other, so a completed consultation from 14:00 to
  15:00 makes the request for 14:30 to 15:30 fail with 400.
\<close>

theorem C3_completed_blocks_counterexample:
  "c_status (slot1415 ''completed'') = ''completed'' \<and>
   bookConsultation invalidDate (storeWith [slot1415 ''completed'']) ''u2'' (request ''14:30'' ''15:30'') =
     (storeWith [slot1415 ''completed''], (400, Message ''Selected time slot is not available''))"
  by (simp add: invalidDate_def expertE1_def slot1415_def storeWith_def request_def
      bookConsultation_def checkExpertAvailability_def conflictQuery_def)

lemma bookConsultation_available_not_400:
  assumes "experts db (expertId req) = Some ex"
    and "checkExpertAvailability db (expertId req) (date req) (startTime req) (endTime req)"
  shows "fst (snd (bookConsultation legacy db userId req)) \<noteq> 400"
  using assms
  by (simp add: bookConsultation_def Let_def split: sum.split)

text \<open>
  Claim C3, amended. A request that names a stored expert is answered 400, "Selected time
  slot is not available", exactly when some stored consultation of that expert and date
  whose status is neither \<open>'cancelled'\<close> nor \<open>'rejected'\<close> overlaps the requested window
  (or starts inside it). Scheduled, confirmed, completed and no-show consultations all
  block; cancelled ones do not.
\<close>

theorem C3_blocking_statuses:
  assumes "experts db (expertId req) = Some ex"
  shows "(bookConsultation legacy db userId req =
            (db, (400, Message ''Selected time slot is not available''))) =
         (\<exists>x \<in> set (consultations db).
             c_expert x = expertId req \<and> c_date x = date req \<and>
             ((c_startTime x < endTime req \<and> c_endTime x > startTime req) \<or>
              (c_startTime x \<ge> startTime req \<and> c_startTime x < endTime req)) \<and>
             c_status x \<noteq> ''cancelled'' \<and> c_status x \<noteq> ''rejected'')"
proof (cases "checkExpertAvailability db (expertId req) (date req) (startTime req) (endTime req)")
  case True
  then have "fst (snd (bookConsultation legacy db userId req)) \<noteq> 400"
    using assms by (rule bookConsultation_available_not_400 [rotated])
  then have "bookConsultation legacy db userId req \<noteq>
            (db, (400, Message ''Selected time slot is not available''))"
    by auto
  moreover from True have "\<forall>x \<in> set (consultations db).
      \<not> conflictQuery (expertId req) (date req) (startTime req) (endTime req) x"
    by (simp only: checkExpertAvailability_iff)
  ultimately show ?thesis
    by (auto simp: conflictQuery_def)
next
  case False
  then have "\<exists>x \<in> set (consultations db).
      conflictQuery (expertId req) (date req) (startTime req) (endTime req) x"
    by (simp add: checkExpertAvailability_iff)
  moreover from False assms have "bookConsultation legacy db userId req =
      (db, (400, Message ''Selected time slot is not available''))"
    by (simp add: bookConsultation_def)
  ultimately show ?thesis
    by (auto simp: conflictQuery_def)
qed

theorem C3_blocking_statuses_witness:
  "experts (storeWith [slot1415 ''no-show'']) (expertId (request ''14:30'' ''15:30'')) = Some expertE1 \<and>
   bookConsultation invalidDate (storeWith [slot1415 ''no-show'']) ''u2'' (request ''14:30'' ''15:30'') =
     (storeWith [slot1415 ''no-show''], (400, Message ''Selected time slot is not available''))"
proof -
  have h1: "experts (storeWith [slot1415 ''no-show'']) (expertId (request ''14:30'' ''15:30'')) = Some expertE1"
    by (simp add: storeWith_def request_def)
  have "\<exists>x \<in> set (consultations (storeWith [slot1415 ''no-show''])).
          c_expert x = expertId (request ''14:30'' ''15:30'') \<and>
          c_date x = date (request ''14:30'' ''15:30'') \<and>
          ((c_startTime x < endTime (request ''14:30'' ''15:30'') \<and>
            c_endTime x > startTime (request ''14:30'' ''15:30'')) \<or>
           (c_startTime x \<ge> startTime (request ''14:30'' ''15:30'') \<and>
            c_startTime x < endTime (request ''14:30'' ''15:30''))) \<and>
          c_status x \<noteq> ''cancelled'' \<and> c_status x \<noteq> ''rejected''"
    by (simp add: storeWith_def slot1415_def request_def)
  with C3_blocking_statuses [OF h1, of invalidDate "''u2''"] h1 show ?thesis
    by blast
qed

text \<open>
  Adjacent windows do not match the availability query: a stored consultation that ends
  where the request starts (and starts before it ends), and one that starts where the
  request ends.
\<close>

lemma adjacent_after_no_conflict:
  assumes "c_endTime x = s" and "c_startTime x < c_endTime x"
  shows "\<not> conflictQuery ex dt s e x"
  using assms by (auto simp: conflictQuery_def)

lemma adjacent_before_no_conflict:
  assumes "c_startTime x = e"
  shows "\<not> conflictQuery ex dt s e x"
  using assms by (auto simp: conflictQuery_def)

text \<open>
  The activity log entry that \<open>bookConsultation\<close> writes after \<open>save\<close> has the type and the
  relatedTo \<open>'consultation'\<close>, which the enums of CommunicationLog do not list: the log
  throws, and no request is ever answered 201.
\<close>

lemma logConsultationActivity_fails:
  "logConsultationActivity db c action userId = Inl ''CommunicationLog validation failed''"
  by (simp add: logConsultationActivity_def CommunicationLog_log_def logValid_def logTypeEnum_def)

lemma bookConsultation_never_201:
  "fst (snd (bookConsultation legacy db userId req)) \<noteq> 201"
  by (simp add: bookConsultation_def Let_def logConsultationActivity_fails
      split: option.split sum.split)

text \<open>
  Claim C4, at the scenario of the specification: expert \<open>e1\<close> has a confirmed
  consultation from 14:00 to 15:00 and 15:00 to 16:00 is requested for the same day. The
  availability check passes and the consultation is stored, yet the reply is 500,
  "Failed to book consultation", since the activity log rejects its entry.
\<close>

theorem C4_adjacent_request_stored_then_500:
  "c_endTime (slot1415 ''confirmed'') = startTime (request ''15:00'' ''16:00'') \<and>
   checkExpertAvailability (storeWith [slot1415 ''confirmed'']) ''e1'' 1717200000000 ''15:00'' ''16:00'' \<and>
   bookConsultation invalidDate (storeWith [slot1415 ''confirmed'']) ''u2'' (request ''15:00'' ''16:00'') =
     (storeWith [slot1415 ''confirmed'', booked ''15:00'' ''16:00''],
      (500, Failure ''Failed to book consultation'' ''CommunicationLog validation failed''))"
  by (simp add: invalidDate_def expertE1_def slot1415_def storeWith_def request_def booked_def
      bookConsultation_def checkExpertAvailability_def conflictQuery_def
      consultationSave_def consultationValid_def consultationStatusEnum_def preSave_def dateGe_def
      parseDate_def isDigit_def digitVal_def duplicateKey_def logConsultationActivity_def
      CommunicationLog_log_def logValid_def logTypeEnum_def replaceUnderscores_def)

text \<open>
  Claim C5, as stated, fails twice. The conflict check runs first: a zero-length request at
  14:30 against a scheduled 14:00 to 15:00 is answered 400, slot not available. And
  without a conflict the window is refused by the pre-save hook of the model, which the
  controller reports as 500, not as invalid input.
\<close>

theorem C5_zero_length_counterexample:
  "startTime (request ''14:30'' ''14:30'') = endTime (request ''14:30'' ''14:30'') \<and>
   bookConsultation invalidDate (storeWith [slot1415 ''scheduled'']) ''u2'' (request ''14:30'' ''14:30'') =
     (storeWith [slot1415 ''scheduled''], (400, Message ''Selected time slot is not available'')) \<and>
   bookConsultation invalidDate (storeWith []) ''u2'' (request ''10:00'' ''10:00'') =
     (storeWith [], (500, Failure ''Failed to book consultation'' ''End time must be after start time''))"
  by (simp add: invalidDate_def expertE1_def slot1415_def storeWith_def request_def
      bookConsultation_def checkExpertAvailability_def conflictQuery_def
      consultationSave_def consultationValid_def consultationStatusEnum_def preSave_def dateGe_def
      parseDate_def isDigit_def digitVal_def duplicateKey_def)

lemma dateGe_same: "d \<noteq> None \<Longrightarrow> dateGe d d"
  by (cases d) (simp_all add: dateGe_def)

text \<open>
  Claim C5, amended. A request with equal start and end time that parses to a valid Date,
  for a stored expert and with the required fields present, never creates a
  consultation: it is answered 400 when the availability query finds a match, and
  otherwise 500 with the hook's error "End time must be after start time".
\<close>

theorem C5_zero_length_never_stored:
  assumes "experts db (expertId req) = Some ex"
    and "userId \<noteq> []" and "expertId req \<noteq> []" and "startTime req \<noteq> []"
    and "endTime req = startTime req"
    and "parseDate legacy (startTime req) \<noteq> None"
  shows "bookConsultation legacy db userId req =
           (db, if checkExpertAvailability db (expertId req) (date req) (startTime req) (endTime req)
                then (500, Failure ''Failed to book consultation'' ''End time must be after start time'')
                else (400, Message ''Selected time slot is not available''))"
proof -
  have "dateGe (parseDate legacy (startTime req)) (parseDate legacy (startTime req))"
    using assms(6) by (rule dateGe_same)
  then show ?thesis
    using assms(1-5)
    by (simp add: bookConsultation_def Let_def consultationSave_def consultationValid_def
        consultationStatusEnum_def preSave_def)
qed

theorem C5_zero_length_never_stored_witness:
  "experts (storeWith []) (expertId (request ''10:00'' ''10:00'')) = Some expertE1 \<and>
   ''u2'' \<noteq> [] \<and> expertId (request ''10:00'' ''10:00'') \<noteq> [] \<and>
   startTime (request ''10:00'' ''10:00'') \<noteq> [] \<and>
   endTime (request ''10:00'' ''10:00'') = startTime (request ''10:00'' ''10:00'') \<and>
   parseDate invalidDate (startTime (request ''10:00'' ''10:00'')) \<noteq> None \<and>
   bookConsultation invalidDate (storeWith []) ''u2'' (request ''10:00'' ''10:00'') =
     (storeWith [], (500, Failure ''Failed to book consultation'' ''End time must be after start time''))"
proof -
  have h1: "experts (storeWith []) (expertId (request ''10:00'' ''10:00'')) = Some expertE1"
    by (simp add: storeWith_def request_def)
  have h2: "''u2'' \<noteq> []" by simp
  have h3: "expertId (request ''10:00'' ''10:00'') \<noteq> []" by (simp add: request_def)
  have h4: "startTime (request ''10:00'' ''10:00'') \<noteq> []" by (simp add: request_def)
  have h5: "endTime (request ''10:00'' ''10:00'') = startTime (request ''10:00'' ''10:00'')"
    by (simp add: request_def)
  have h6: "parseDate invalidDate (startTime (request ''10:00'' ''10:00'')) \<noteq> None"
    by (simp add: request_def parseDate_def isDigit_def digitVal_def)
  have av: "checkExpertAvailability (storeWith []) (expertId (request ''10:00'' ''10:00''))
      (date (request ''10:00'' ''10:00'')) (startTime (request ''10:00'' ''10:00''))
      (endTime (request ''10:00'' ''10:00''))"
    by (simp add: checkExpertAvailability_def storeWith_def)
  from C5_zero_length_never_stored [OF h1 h2 h3 h4 h5 h6] av
  have "bookConsultation invalidDate (storeWith []) ''u2'' (request ''10:00'' ''10:00'') =
     (storeWith [], (500, Failure ''Failed to book consultation'' ''End time must be after start time''))"
    by simp
  with h1 h2 h3 h4 h5 h6 show ?thesis by blast
qed

section \<open>Properties of visits and owner responses\<close>

text \<open>
  Claim C2, as stated, fails: the visit route looks for a pending or confirmed visit of
  the requesting tenant only, and compares neither date nor slot. Tenant A holds a
  pending visit of the property on 2024-06-01, 10:00-11:00; tenant B asks for the same
  property, day and slot and is answered 201, with a second visit stored.
\<close>

theorem C2_other_tenant_counterexample:
  "b_property (visitOf ''b1'' ''tenantA'' ''pending'') = vb_property visitRequest \<and>
   b_visitDate (visitOf ''b1'' ''tenantA'' ''pending'') = newDate libEnv (visitDate visitRequest) \<and>
   b_visitTimeSlot (visitOf ''b1'' ''tenantA'' ''pending'') = visitTimeSlot visitRequest \<and>
   postVisit libEnv (rental [visitOf ''b1'' ''tenantA'' ''pending'']) tenantB ''b2'' visitRequest =
     (rental [visitOf ''b1'' ''tenantA'' ''pending'', visitOf ''b2'' ''tenantB'' ''pending''],
      (201, Document (visitOf ''b2'' ''tenantB'' ''pending'')))"
  by (simp add: libEnv_def tenantA_def tenantB_def ownerO_def flat_def visitOf_def rental_def visitRequest_def postVisit_def authorize_def visitErrors_def bookingInsert_def bookingValid_def bookingTypeEnum_def bookingStatusEnum_def Let_def)

lemma find_SomeD: "find P xs = Some y \<Longrightarrow> y \<in> set xs \<and> P y"
  by (induction xs) (auto split: if_splits)

lemma find_cases:
  obtains (none) "find P xs = None" "\<forall>x \<in> set xs. \<not> P x"
  | (some) y where "find P xs = Some y" "y \<in> set xs" "P y"
proof (cases "find P xs")
  case None
  then show ?thesis using none by (simp add: find_is_None)
next
  case (Some y)
  then show ?thesis using some find_SomeD [of P xs y] by simp
qed

text \<open>
  Claim C2, amended. For a tenant whose request passes the validators and names a stored
  property, the request is answered 400, "You already have a pending visit request for
  this property", exactly when that same tenant has a pending or confirmed visit of the
  property, whatever its date and slot; the visits of other tenants never block.
\<close>

theorem C2_same_tenant_blocks:
  assumes "authorize [''tenant''] usr = None"
    and "visitErrors ev req = []"
    and "properties db (vb_property req) = Some prop"
  shows "(postVisit ev db usr newId req =
            (db, (400, Message ''You already have a pending visit request for this property''))) =
         (\<exists>b \<in> set (bookings db).
             b_user b = u_id usr \<and> b_property b = vb_property req \<and> b_bookingType b = ''visit'' \<and>
             (b_status b = ''pending'' \<or> b_status b = ''confirmed''))"
proof (cases rule: find_cases [of "\<lambda>b. b_user b = u_id usr \<and> b_property b = vb_property req \<and>
                                  b_bookingType b = ''visit'' \<and>
                                  b_status b \<in> set [''pending'', ''confirmed'']" "bookings db"])
  case none
  from none(1) assms have "fst (snd (postVisit ev db usr newId req)) \<noteq> 400"
    by (simp add: postVisit_def Let_def split: option.split sum.split)
  then have "postVisit ev db usr newId req \<noteq>
            (db, (400, Message ''You already have a pending visit request for this property''))"
    by auto
  with none(2) show ?thesis by auto
next
  case (some y)
  from some(1) assms have "postVisit ev db usr newId req =
            (db, (400, Message ''You already have a pending visit request for this property''))"
    by (simp add: postVisit_def)
  with some(2,3) show ?thesis by auto
qed

text \<open>
  Claim C10, at the answer \<open>'rejected'\<close>. The route is "Accept/Reject" and its validator
  admits \<open>'confirmed'\<close> and \<open>'rejected'\<close>, but the status enum of the Booking schema is
  pending, confirmed, cancelled, completed. The owner of the property rejects the
  pending visit \<open>b1\<close>: \<open>save\<close> throws, the stored booking keeps its status, and the reply is
  500, "Server error".
\<close>

theorem C10_reject_not_saved:
  "find (\<lambda>b. b_id b = ''b1'') (bookings (rental [visitOf ''b1'' ''tenantA'' ''pending''])) =
     Some (visitOf ''b1'' ''tenantA'' ''pending'') \<and>
   putBookingRespond (rental [visitOf ''b1'' ''tenantA'' ''pending'']) ownerO ''b1'' ''rejected'' =
     (rental [visitOf ''b1'' ''tenantA'' ''pending''], (500, Message ''Server error''))"
  by (simp add: tenantA_def tenantB_def ownerO_def flat_def visitOf_def rental_def
      putBookingRespond_def authorize_def bookingUpdate_def bookingValid_def bookingTypeEnum_def
      bookingStatusEnum_def Notification_create_def)

text \<open>
  The route as a whole, for the owner of the property and a stored valid booking: the
  reply is always 500. With \<open>'confirmed'\<close> the new status is saved first and stays saved,
  the error coming from the identifier \<open>Notification\<close> that the module never imports; with
  \<open>'rejected'\<close> the store is unchanged.
\<close>

lemma respond_always_500:
  assumes "authorize [''owner''] usr = None"
    and "status = ''confirmed'' \<or> status = ''rejected''"
    and "find (\<lambda>x. b_id x = bookingId) (bookings db) = Some b"
    and "properties db (b_property b) = Some prop"
    and "p_owner prop = u_id usr"
    and "bookingValid b"
  shows "putBookingRespond db usr bookingId status =
           (if status = ''confirmed''
            then db\<lparr>bookings := map (\<lambda>x. if b_id x = bookingId then b\<lparr>b_status := ''confirmed''\<rparr> else x)
                                     (bookings db)\<rparr>
            else db,
            (500, Message ''Server error''))"
proof -
  from find_SomeD [OF assms(3)] have id: "b_id b = bookingId"
    by simp
  show ?thesis
  proof (cases "status = ''confirmed''")
    case True
    with assms(6) have "bookingValid (b\<lparr>b_status := status\<rparr>)"
      by (simp add: bookingValid_def bookingStatusEnum_def)
    with True assms(1,3,4,5) id show ?thesis
      by (simp add: putBookingRespond_def bookingUpdate_def Notification_create_def)
  next
    case False
    with assms(2) have r: "status = ''rejected''" by simp
    then have "\<not> bookingValid (b\<lparr>b_status := status\<rparr>)"
      by (simp add: bookingValid_def bookingStatusEnum_def)
    with r assms(1,3,4,5) show ?thesis
      by (simp add: putBookingRespond_def bookingUpdate_def)
  qed
qed

text \<open>The sibling answer: the owner confirms the pending visit \<open>b1\<close>.\<close>

lemma respond_confirmed_saved_then_500:
  "putBookingRespond (rental [visitOf ''b1'' ''tenantA'' ''pending'']) ownerO ''b1'' ''confirmed'' =
     (rental [visitOf ''b1'' ''tenantA'' ''confirmed''], (500, Message ''Server error''))"
  by (simp add: tenantA_def tenantB_def ownerO_def flat_def visitOf_def rental_def
      putBookingRespond_def authorize_def bookingUpdate_def bookingValid_def bookingTypeEnum_def
      bookingStatusEnum_def Notification_create_def)

text \<open>
  Tenant A, holding a confirmed visit, asks again.
\<close>

theorem C2_same_tenant_blocks_witness:
  "authorize [''tenant''] tenantA = None \<and> visitErrors libEnv visitRequest = [] \<and>
   properties (rental [visitOf ''b1'' ''tenantA'' ''confirmed'']) (vb_property visitRequest) = Some flat \<and>
   postVisit libEnv (rental [visitOf ''b1'' ''tenantA'' ''confirmed'']) tenantA ''b2'' visitRequest =
     (rental [visitOf ''b1'' ''tenantA'' ''confirmed''],
      (400, Message ''You already have a pending visit request for this property''))"
proof -
  have h1: "authorize [''tenant''] tenantA = None"
    by (simp add: authorize_def tenantA_def)
  have h2: "visitErrors libEnv visitRequest = []"
    by (simp add: visitErrors_def libEnv_def visitRequest_def)
  have h3: "properties (rental [visitOf ''b1'' ''tenantA'' ''confirmed'']) (vb_property visitRequest) = Some flat"
    by (simp add: rental_def visitRequest_def)
  have "\<exists>b \<in> set (bookings (rental [visitOf ''b1'' ''tenantA'' ''confirmed''])).
             b_user b = u_id tenantA \<and> b_property b = vb_property visitRequest \<and>
             b_bookingType b = ''visit'' \<and>
             (b_status b = ''pending'' \<or> b_status b = ''confirmed'')"
    by (simp add: rental_def visitOf_def tenantA_def visitRequest_def)
  with C2_same_tenant_blocks [OF h1 h2 h3, of "''b2''"] h1 h2 h3 show ?thesis
    by blast
qed

section \<open>Properties of the view tracking\<close>

lemma alreadyViewed_push:
  "alreadyViewed (prop\<lparr>viewedBy := viewedBy prop @ [v], p_views := n\<rparr>) uid =
     (alreadyViewed prop uid \<or> v_user v = Some uid)"
  by (auto simp: alreadyViewed_def split: option.splits)

lemma viewedInv_pushView:
  "viewedInv db pid uid \<Longrightarrow> viewedInv (pushView db pid' v) pid uid"
  by (auto simp: viewedInv_def pushView_def alreadyViewed_push split: option.splits)

lemma viewedInv_fetchProperty:
  "viewedInv db pid uid \<Longrightarrow> viewedInv (fetchProperty db pid' userId ip now) pid uid"
  by (auto simp: fetchProperty_def trackView_def viewedInv_pushView split: option.splits)

lemma viewedInv_fetchAll:
  "viewedInv db pid uid \<Longrightarrow> viewedInv (fetchAll db rs) pid uid"
  by (induction db rs rule: fetchAll.induct) (simp_all add: viewedInv_fetchProperty)

lemma fetch_again_noop:
  assumes "viewedInv db pid uid" and "uid \<noteq> []"
  shows "fetchProperty db pid (Some uid) ip now = db"
  using assms
  by (auto simp: viewedInv_def fetchProperty_def trackView_def truthyValue_def split: option.splits)

lemma first_fetch:
  assumes "properties db pid = Some prop" and "users db (p_owner prop) = Some owner"
    and "uid \<noteq> []" and "p_owner prop \<noteq> uid" and "\<not> alreadyViewed prop uid"
  shows "fetchProperty db pid (Some uid) ip now =
           db\<lparr>properties := (properties db)(pid \<mapsto>
                prop\<lparr>viewedBy := viewedBy prop @ [\<lparr>v_user = Some uid, v_viewedAt = now, v_ipAddress = ip\<rparr>],
                     p_views := p_views prop + 1\<rparr>)\<rparr>"
  using assms by (simp add: fetchProperty_def trackView_def truthyValue_def pushView_def)

text \<open>
  The tracking block when \<open>req.user._id\<close> is defined, is not the owner's, and has no view
  record yet: the first fetch appends one view record and adds one to the counter; after
  that, whatever fetches follow, by whomever, every fetch with the same id leaves the store
  as it is.
\<close>

lemma identified_view_counted_once:
  assumes "properties db pid = Some prop" and "users db (p_owner prop) = Some owner"
    and "uid \<noteq> []" and "p_owner prop \<noteq> uid" and "\<not> alreadyViewed prop uid"
  shows "properties (fetchProperty db pid (Some uid) ip now) pid =
           Some (prop\<lparr>viewedBy := viewedBy prop @ [\<lparr>v_user = Some uid, v_viewedAt = now, v_ipAddress = ip\<rparr>],
                      p_views := p_views prop + 1\<rparr>) \<and>
         (\<forall>rs ip' now'.
            fetchProperty (fetchAll (fetchProperty db pid (Some uid) ip now) rs) pid (Some uid) ip' now' =
              fetchAll (fetchProperty db pid (Some uid) ip now) rs)"
proof -
  let ?db1 = "fetchProperty db pid (Some uid) ip now"
  have eq: "?db1 = db\<lparr>properties := (properties db)(pid \<mapsto>
                prop\<lparr>viewedBy := viewedBy prop @ [\<lparr>v_user = Some uid, v_viewedAt = now, v_ipAddress = ip\<rparr>],
                     p_views := p_views prop + 1\<rparr>)\<rparr>"
    using assms by (rule first_fetch)
  then have p: "properties ?db1 pid = Some (prop\<lparr>viewedBy := viewedBy prop @ [\<lparr>v_user = Some uid, v_viewedAt = now, v_ipAddress = ip\<rparr>],
                      p_views := p_views prop + 1\<rparr>)"
    by simp
  then have "viewedInv ?db1 pid uid"
    by (simp add: viewedInv_def alreadyViewed_push)
  then have "\<And>rs. viewedInv (fetchAll ?db1 rs) pid uid"
    by (rule viewedInv_fetchAll)
  then have "\<And>rs ip' now'. fetchProperty (fetchAll ?db1 rs) pid (Some uid) ip' now' = fetchAll ?db1 rs"
    using assms(3) by (rule fetch_again_noop)
  with p show ?thesis by blast
qed

lemma alreadyViewedByIP_iff:
  "alreadyViewedByIP prop ip now =
     (\<exists>v \<in> set (viewedBy prop). v_ipAddress v = ip \<and> now - v_viewedAt v < 86400000)"
  by (simp add: alreadyViewedByIP_def dayMs_def list_ex_iff)

text \<open>
  Claim C9. A fetch without a user id: if some view record has the same address and is
  less than 24 hours old, the store is unchanged; if every view record of that address
  is 24 hours old or older, one view record is appended and the counter grows by one.
\<close>

theorem C9_anonymous_view_window:
  assumes "properties db pid = Some prop" and "truthyValue userId = None"
  shows "((\<exists>v \<in> set (viewedBy prop). v_ipAddress v = ip \<and> now - v_viewedAt v < 86400000) \<longrightarrow>
            fetchProperty db pid userId ip now = db) \<and>
         ((\<forall>v \<in> set (viewedBy prop). v_ipAddress v = ip \<longrightarrow> 86400000 \<le> now - v_viewedAt v) \<longrightarrow>
            fetchProperty db pid userId ip now =
              db\<lparr>properties := (properties db)(pid \<mapsto>
                   prop\<lparr>viewedBy := viewedBy prop @ [\<lparr>v_user = None, v_viewedAt = now, v_ipAddress = ip\<rparr>],
                        p_views := p_views prop + 1\<rparr>)\<rparr>)"
proof (intro conjI impI)
  assume "\<exists>v \<in> set (viewedBy prop). v_ipAddress v = ip \<and> now - v_viewedAt v < 86400000"
  then have "alreadyViewedByIP prop ip now"
    by (simp only: alreadyViewedByIP_iff)
  with assms show "fetchProperty db pid userId ip now = db"
    by (simp add: fetchProperty_def trackView_def)
next
  assume "\<forall>v \<in> set (viewedBy prop). v_ipAddress v = ip \<longrightarrow> 86400000 \<le> now - v_viewedAt v"
  then have "\<not> alreadyViewedByIP prop ip now"
    by (auto simp: alreadyViewedByIP_iff)
  with assms show "fetchProperty db pid userId ip now =
              db\<lparr>properties := (properties db)(pid \<mapsto>
                   prop\<lparr>viewedBy := viewedBy prop @ [\<lparr>v_user = None, v_viewedAt = now, v_ipAddress = ip\<rparr>],
                        p_views := p_views prop + 1\<rparr>)\<rparr>"
    by (simp add: fetchProperty_def trackView_def pushView_def)
qed


text \<open>
  Claim C8, at a viewer whom the application has authenticated. Tenant \<open>u5\<close> holds a token
  with the payload \<open>{userId: 'u5'}\<close>, which \<open>auth\<close> resolves to the stored user. Behind
  \<open>optionalAuth\<close> the same token gives a \<open>req.user\<close> without \<open>_id\<close>, so the handler takes the
  anonymous branch: two fetches of page \<open>p1\<close> one minute apart, from two addresses, leave
  two view records without a user and a counter of 2.
\<close>

theorem C8_token_viewer_counted_by_address:
  "auth appVerify (audience []) (Some ''token-u5'') = Some tenantU5 \<and>
   optionalAuth appVerify (Some ''token-u5'') = Some \<lparr>pl_userId = Some ''u5'', pl_id = None\<rparr> \<and>
   getProperty appVerify
     (getProperty appVerify (audience []) ''p1'' (Some ''token-u5'') (Some ''10.0.0.7'') 1717200000000)
     ''p1'' (Some ''token-u5'') (Some ''10.0.0.8'') 1717200060000 =
     audience [viewBy None 1717200000000,
               (viewBy None 1717200060000)\<lparr>v_ipAddress := Some ''10.0.0.8''\<rparr>] \<and>
   map_option p_views
     (properties (audience [viewBy None 1717200000000,
                            (viewBy None 1717200060000)\<lparr>v_ipAddress := Some ''10.0.0.8''\<rparr>]) ''p1'') =
     Some 2"
  by (simp add: auth_def optionalAuth_def getProperty_def appVerify_def audience_def viewed_def
      viewBy_def flat_def tenantU5_def ownerO_def fetchProperty_def trackView_def truthyValue_def
      alreadyViewedByIP_def dayMs_def pushView_def)

text \<open>
  A view recorded at 2024-06-01 00:00 UTC: one millisecond before 24 hours have passed the
  fetch changes nothing, at 24 hours it is counted again.
\<close>

theorem C9_anonymous_view_window_witness:
  "properties (viewed [viewBy None 1717200000000]) ''p1'' =
     Some (flat\<lparr>viewedBy := [viewBy None 1717200000000], p_views := 1\<rparr>) \<and>
   truthyValue None = None \<and>
   fetchProperty (viewed [viewBy None 1717200000000]) ''p1'' None (Some ''10.0.0.7'') 1717286399999 =
     viewed [viewBy None 1717200000000] \<and>
   fetchProperty (viewed [viewBy None 1717200000000]) ''p1'' None (Some ''10.0.0.7'') 1717286400000 =
     viewed [viewBy None 1717200000000, viewBy None 1717286400000]"
proof -
  have h1: "properties (viewed [viewBy None 1717200000000]) ''p1'' =
     Some (flat\<lparr>viewedBy := [viewBy None 1717200000000], p_views := 1\<rparr>)"
    by (simp add: viewed_def)
  have h2: "truthyValue None = None"
    by (simp add: truthyValue_def)
  have a: "fetchProperty (viewed [viewBy None 1717200000000]) ''p1'' None (Some ''10.0.0.7'') 1717286399999 =
     viewed [viewBy None 1717200000000]"
    using C9_anonymous_view_window [OF h1 h2, of "Some ''10.0.0.7''" 1717286399999]
    by (simp add: viewBy_def)
  have b: "fetchProperty (viewed [viewBy None 1717200000000]) ''p1'' None (Some ''10.0.0.7'') 1717286400000 =
     viewed [viewBy None 1717200000000, viewBy None 1717286400000]"
    using C9_anonymous_view_window [OF h1 h2, of "Some ''10.0.0.7''" 1717286400000]
    by (simp add: viewBy_def viewed_def)
  from h1 h2 a b show ?thesis by blast
qed

section \<open>Properties of the analytics\<close>

text \<open>
  Rounding to a double: the integer significand is within one half of the scaled value,
  the binade brackets a positive number, and the relative error of a result in the normal
  range is at most 2^-53.
\<close>

lemma roundHalfEven_error: "\<bar>of_int (roundHalfEven r) - r\<bar> \<le> 1/2"
proof -
  have "of_int \<lfloor>r\<rfloor> \<le> r" "r < of_int \<lfloor>r\<rfloor> + 1"
    by linarith+
  then show ?thesis
    by (auto simp: roundHalfEven_def Let_def)
qed

lemma floorlog2_bounds:
  assumes "0 < (n::nat)"
  shows "(2::rat) powi (int (floorlog 2 n) - 1) \<le> of_nat n" "of_nat n < (2::rat) powi (int (floorlog 2 n))"
proof -
  from floorlog_bounds [of n 2] assms
  have a: "2 ^ (floorlog 2 n - 1) \<le> n" and b: "n < 2 ^ floorlog 2 n"
    by auto
  have "floorlog 2 n \<noteq> 0"
    using assms by (simp add: floorlog_eq_zero_iff)
  then obtain k where k: "floorlog 2 n = Suc k"
    by (cases "floorlog 2 n") simp_all
  have "(of_nat (2 ^ k) :: rat) \<le> of_nat n"
    using a unfolding k by (simp only: of_nat_le_iff diff_Suc_1)
  then show "(2::rat) powi (int (floorlog 2 n) - 1) \<le> of_nat n"
    unfolding k by simp
  have "(of_nat n :: rat) < of_nat (2 ^ Suc k)"
    using b unfolding k by (simp only: of_nat_less_iff)
  moreover have "(2::rat) powi (int (Suc k)) = of_nat (2 ^ Suc k)"
    by (simp only: power_int_of_nat of_nat_power of_nat_numeral)
  ultimately show "of_nat n < (2::rat) powi (int (floorlog 2 n))"
    unfolding k by simp
qed

lemma binade_bounds:
  assumes "0 < q"
  shows "2 powi (binade q) \<le> q" and "q < 2 powi (binade q + 1)"
proof -
  obtain a b where ab: "quotient_of q = (a, b)" by (cases "quotient_of q")
  then have b: "0 < b" and q: "q = of_int a / of_int b"
    by (simp_all add: quotient_of_denom_pos quotient_of_div)
  with assms have a: "0 < a"
    by (simp add: zero_less_divide_iff)
  define la where "la = int (floorlog 2 (nat a))"
  define lb where "lb = int (floorlog 2 (nat b))"
  have A: "(2::rat) powi (la - 1) \<le> of_int a" "of_int a < (2::rat) powi la"
    using floorlog2_bounds [of "nat a"] a by (simp_all add: la_def)
  have B: "(2::rat) powi (lb - 1) \<le> of_int b" "of_int b < (2::rat) powi lb"
    using floorlog2_bounds [of "nat b"] b by (simp_all add: lb_def)
  have bq: "(0::rat) < of_int b" using b by simp
  have up: "q < 2 powi (la - lb + 1)"
  proof -
    have "of_int a < (2::rat) powi la" by (rule A)
    also have "\<dots> = 2 powi (la - lb + 1) * 2 powi (lb - 1)"
      by (simp flip: power_int_add)
    also have "\<dots> \<le> 2 powi (la - lb + 1) * of_int b"
      using B(1) by (intro mult_left_mono) simp_all
    finally show ?thesis
      using bq by (simp add: q pos_divide_less_eq)
  qed
  have lo: "2 powi (la - lb - 1) < q"
  proof -
    have "2 powi (la - lb - 1) * of_int b < 2 powi (la - lb - 1) * (2::rat) powi lb"
      using B(2) by (intro mult_strict_left_mono) simp_all
    also have "\<dots> = 2 powi (la - 1)"
      by (simp flip: power_int_add)
    also have "\<dots> \<le> of_int a" by (rule A)
    finally show ?thesis
      using bq by (simp add: q pos_less_divide_eq)
  qed
  have bin: "binade q = (if 2 powi (la - lb) \<le> q then la - lb else la - lb - 1)"
    by (simp add: binade_def ab la_def lb_def Let_def)
  show "2 powi (binade q) \<le> q"
    using lo by (simp add: bin)
  show "q < 2 powi (binade q + 1)"
    using up by (simp add: bin not_le)
qed

lemma binade_ge:
  assumes "2 powi k \<le> q"
  shows "k \<le> binade q"
proof -
  have "(0::rat) < 2 powi k" by simp
  with assms have "0 < q" by linarith
  then have "q < 2 powi (binade q + 1)" by (rule binade_bounds)
  with assms have "(2::rat) powi k < 2 powi (binade q + 1)" by linarith
  moreover have "binade q + 1 \<le> k \<Longrightarrow> (2::rat) powi (binade q + 1) \<le> 2 powi k"
    by (rule power_int_increasing) simp_all
  ultimately have "k < binade q + 1"
    by (meson not_le)
  then show ?thesis by simp
qed

lemma fl_error:
  assumes "0 < q" and "- 1022 \<le> binade q"
  shows "\<bar>fl q - q\<bar> \<le> q / 2 ^ 53"
proof -
  define e where "e = binade q - 52"
  have e: "max (binade \<bar>q\<bar> - 52) (- 1074) = e"
    using assms by (simp add: e_def)
  have pe: "(0::rat) < 2 powi e" by simp
  have "fl q = of_int (roundHalfEven (q / 2 powi e)) * 2 powi e"
    using assms(1) e by (simp add: fl_def)
  then have "fl q - q = (of_int (roundHalfEven (q / 2 powi e)) - q / 2 powi e) * 2 powi e"
    by (simp add: algebra_simps)
  then have "\<bar>fl q - q\<bar> = \<bar>of_int (roundHalfEven (q / 2 powi e)) - q / 2 powi e\<bar> * 2 powi e"
    by (simp add: abs_mult)
  also have "\<dots> \<le> 1/2 * 2 powi e"
    using roundHalfEven_error [of "q / 2 powi e"] by (intro mult_right_mono) simp_all
  also have "\<dots> = 2 powi (binade q) / 2 ^ 53"
  proof -
    have "(2::rat) powi e = 2 powi (binade q) / 2 powi 52"
      unfolding e_def by (rule power_int_diff) simp
    then show ?thesis by simp
  qed
  also have "\<dots> \<le> q / 2 ^ 53"
    using binade_bounds(1) [OF assms(1)] by (simp add: divide_right_mono)
  finally show ?thesis .
qed

lemma fl_zero [simp]: "fl 0 = 0"
  by (simp add: fl_def)

text \<open>
  A value closer than \<open>1 / (2 d)\<close> to the fraction \<open>p / d\<close> rounds half up to an integer
  nearest to \<open>p / d\<close>: a fraction with denominator \<open>d\<close> that is not itself a tie is at least
  \<open>1 / (2 d)\<close> away from one.
\<close>

lemma nearest_of_close:
  fixes p :: int and d :: nat and z :: rat
  assumes "0 < d" and "\<bar>z - of_int p / of_nat d\<bar> < 1 / (2 * of_nat d)"
  shows "\<bar>of_int \<lfloor>z + 1/2\<rfloor> - of_int p / of_nat d\<bar> \<le> (1/2 :: rat)"
proof -
  define n where "n = \<lfloor>z + 1/2\<rfloor>"
  define y :: rat where "y = of_int p / of_nat d"
  have dpos: "(0::rat) < of_nat d" using assms(1) by simp
  have n1: "of_int n \<le> z + 1/2" and n2: "z + 1/2 < of_int n + 1"
    unfolding n_def by linarith+
  have yd: "y * of_nat d = of_int p"
    using dpos by (simp add: y_def)
  have close: "\<bar>z - y\<bar> * (2 * of_nat d) < 1"
    using assms(2) dpos by (simp add: y_def pos_less_divide_eq)
  have "\<not> (of_int n - y > 1/2)"
  proof
    assume "of_int n - y > 1/2"
    then have "(of_int n - y) * (2 * of_nat d) > 1/2 * (2 * of_nat d)"
      using dpos by (intro mult_strict_right_mono) simp_all
    then have "of_int (2 * n * int d - 2 * p) > (of_int (int d) :: rat)"
      using yd by (simp add: algebra_simps)
    then have "2 * n * int d - 2 * p > int d"
      by (simp only: of_int_less_iff)
    then have "2 * n * int d - 2 * p \<ge> int d + 1" by simp
    then have "(of_int (2 * n * int d - 2 * p) :: rat) \<ge> of_int (int d + 1)"
      by (simp only: of_int_le_iff)
    then have "(of_int n - y) * (2 * of_nat d) \<ge> of_nat d + 1"
      using yd by (simp add: algebra_simps)
    moreover have "(of_int n - z) * (2 * of_nat d) \<le> 1/2 * (2 * of_nat d)"
      using n1 dpos by (intro mult_right_mono) simp_all
    ultimately have "(z - y) * (2 * of_nat d) \<ge> 1"
      by (simp add: algebra_simps)
    moreover have "(z - y) * (2 * of_nat d) \<le> \<bar>z - y\<bar> * (2 * of_nat d)"
      using dpos by (intro mult_right_mono) simp_all
    ultimately show False using close by linarith
  qed
  moreover have "\<not> (y - of_int n > 1/2)"
  proof
    assume "y - of_int n > 1/2"
    then have "(y - of_int n) * (2 * of_nat d) > 1/2 * (2 * of_nat d)"
      using dpos by (intro mult_strict_right_mono) simp_all
    then have "of_int (2 * p - 2 * n * int d) > (of_int (int d) :: rat)"
      using yd by (simp add: algebra_simps)
    then have "2 * p - 2 * n * int d > int d"
      by (simp only: of_int_less_iff)
    then have "2 * p - 2 * n * int d \<ge> int d + 1" by simp
    then have "(of_int (2 * p - 2 * n * int d) :: rat) \<ge> of_int (int d + 1)"
      by (simp only: of_int_le_iff)
    then have "(y - of_int n) * (2 * of_nat d) \<ge> of_nat d + 1"
      using yd by (simp add: algebra_simps)
    moreover have "(z - of_int n) * (2 * of_nat d) \<le> 1/2 * (2 * of_nat d)"
      using n2 dpos by (intro mult_right_mono) simp_all
    ultimately have "(y - z) * (2 * of_nat d) \<ge> 1"
      by (simp add: algebra_simps)
    moreover have "(y - z) * (2 * of_nat d) \<le> \<bar>z - y\<bar> * (2 * of_nat d)"
      using dpos by (intro mult_right_mono) simp_all
    ultimately show False using close by linarith
  qed
  ultimately show ?thesis
    unfolding n_def y_def by linarith
qed

lemma fl_rel:
  assumes "2 powi (- 1022) \<le> q"
  shows "\<bar>fl q - q\<bar> \<le> q / 2 ^ 53"
proof -
  have "(0::rat) < 2 powi (- 1022)" by simp
  with assms have "0 < q" by linarith
  moreover from assms have "- 1022 \<le> binade q" by (rule binade_ge)
  ultimately show ?thesis by (rule fl_error)
qed

lemma two_roundings:
  assumes "2 powi (- 1000) \<le> q" and "1 \<le> c"
  shows "\<bar>fl (fl q * c) - q * c\<bar> \<le> q * c * (3 / 2 ^ 53)"
proof -
  have small: "(2::rat) powi (- 1022) \<le> 2 powi (- 1001)" "(2::rat) powi (- 1001) \<le> 2 powi (- 1000)"
    by (rule power_int_increasing; simp)+
  have half: "(2::rat) powi (- 1001) = 2 powi (- 1000) / 2"
    using power_int_diff [of "2::rat" "- 1000" 1] by simp
  have p: "(0::rat) < 2 powi (- 1000)" by simp
  with assms have q: "0 < q" by linarith
  define x where "x = fl q"
  have e1: "\<bar>x - q\<bar> \<le> q / 2 ^ 53"
    unfolding x_def using small assms(1) by (intro fl_rel) linarith
  then have d: "x - q \<le> q / 2 ^ 53" "q - x \<le> q / 2 ^ 53"
    by (simp_all only: abs_le_iff minus_diff_eq)
  have "q / 2 ^ 53 \<le> q / 2"
    using q by (intro divide_left_mono) simp_all
  with d(2) have xlo: "q / 2 \<le> x"
    by (simp add: field_simps)
  from d(1) have xhi: "x \<le> q + q / 2 ^ 53"
    by linarith
  have "2 powi (- 1001) \<le> q / 2"
    using assms(1) by (simp add: half)
  also have "\<dots> \<le> x" by (rule xlo)
  also have "x \<le> x * c"
    using assms(2) xlo q by (simp add: mult_le_cancel_left1)
  finally have "2 powi (- 1022) \<le> x * c"
    using small by linarith
  then have e2: "\<bar>fl (x * c) - x * c\<bar> \<le> x * c / 2 ^ 53"
    by (rule fl_rel)
  have c: "0 < c" using assms(2) by linarith
  have "x * c / 2 ^ 53 \<le> (q + q / 2 ^ 53) * c / 2 ^ 53"
    using xhi c by (intro divide_right_mono mult_right_mono) simp_all
  with e2 have e2': "\<bar>fl (x * c) - x * c\<bar> \<le> (q + q / 2 ^ 53) * c / 2 ^ 53"
    by linarith
  have "\<bar>x * c - q * c\<bar> = \<bar>x - q\<bar> * c"
    using c by (simp add: abs_mult flip: left_diff_distrib)
  also have "\<dots> \<le> q / 2 ^ 53 * c"
    using e1 c by (intro mult_right_mono) simp_all
  finally have e3: "\<bar>x * c - q * c\<bar> \<le> q / 2 ^ 53 * c" .
  have "\<bar>fl (x * c) - q * c\<bar> \<le> \<bar>fl (x * c) - x * c\<bar> + \<bar>x * c - q * c\<bar>"
    by linarith
  also have "\<dots> \<le> (q + q / 2 ^ 53) * c / 2 ^ 53 + q / 2 ^ 53 * c"
    using e2' e3 by linarith
  also have "\<dots> = q * c * ((2 + 1 / 2 ^ 53) / 2 ^ 53)"
    by (simp add: field_simps)
  also have "\<dots> \<le> q * c * (3 / 2 ^ 53)"
    using q c by (intro mult_left_mono) simp_all
  finally show ?thesis unfolding x_def .
qed

lemma roundHalfEven_of_int [simp]: "roundHalfEven (of_int m) = m"
  by (simp add: roundHalfEven_def)

text \<open>
  Integers below 2^53 are doubles, so sums of counts and of ratings are exact.
\<close>

lemma fl_of_nat:
  assumes "n < 2 ^ 53"
  shows "fl (of_nat n) = of_nat n"
proof (cases "n = 0")
  case True
  then show ?thesis by simp
next
  case False
  define q :: rat where "q = of_nat n"
  define k where "k = binade q"
  have q: "0 < q" "1 \<le> q" using False by (simp_all add: q_def)
  have lo: "2 powi k \<le> q" and hi: "q < 2 powi (k + 1)"
    unfolding k_def using binade_bounds [OF q(1)] by simp_all
  have k0: "0 \<le> k"
    unfolding k_def using q(2) by (intro binade_ge) simp
  have k52: "k \<le> 52"
  proof (rule ccontr)
    assume "\<not> k \<le> 52"
    then have "53 \<le> k" by simp
    then have "(2::rat) powi 53 \<le> 2 powi k"
      by (intro power_int_increasing) simp_all
    with lo have "(2::rat) ^ 53 \<le> of_nat n" by (simp add: q_def)
    moreover have "(of_nat n :: rat) < of_nat (2 ^ 53)"
      using assms by (simp only: of_nat_less_iff)
    ultimately show False by simp
  qed
  define j where "j = nat (52 - k)"
  have e: "max (binade \<bar>q\<bar> - 52) (- 1074) = - int j"
    using k0 k52 q by (simp add: j_def k_def)
  have sc: "q / 2 powi (- int j) = of_int (int n * 2 ^ j)"
    by (simp add: power_int_minus q_def field_simps)
  have "fl q = of_int (roundHalfEven (q / 2 powi (- int j))) * 2 powi (- int j)"
    using q(1) e by (simp add: fl_def Let_def)
  also have "\<dots> = of_int (int n * 2 ^ j) * 2 powi (- int j)"
    by (simp only: sc roundHalfEven_of_int)
  also have "\<dots> = q"
    by (simp add: power_int_minus q_def field_simps)
  finally show ?thesis by (simp add: q_def)
qed

lemma parseFloat_zero [simp]: "parseFloat (Decimal 0 d) = 0"
  by (simp add: parseFloat_def)

lemma conversionRate_no_views: "conversionRate 0 b = 0"
  by (simp add: conversionRate_def)

lemma tiny: "(2::rat) powi (- 1000) \<le> 1 / 2 ^ 53"
proof -
  have "(2::rat) powi (- 1000) \<le> 2 powi (- 53)"
    by (rule power_int_increasing) simp_all
  then show ?thesis by (simp add: power_int_minus_divide)
qed

lemma scale_10000:
  "(of_int (10000 * int b) :: rat) / of_nat v = of_nat b / of_nat v * 100 * 10 ^ 2"
proof -
  have "(10::rat) ^ 2 = 100" by (simp add: power2_eq_square)
  moreover have "(of_int (10000 * int b) :: rat) = of_nat b * 10000" by simp
  ultimately show ?thesis by (simp only: times_divide_eq_left mult.assoc)
qed

lemma conversionRate_unfold:
  fixes v b :: nat
  assumes v: "(0::rat) < of_nat v"
  shows "conversionRate (of_nat v) (of_nat b) =
     parseFloat (Decimal \<lfloor>jsMul (jsDiv (of_nat b) (of_nat v)) 100 * 100 + 1/2\<rfloor> 2)"
proof -
  have "conversionRate (of_nat v) (of_nat b) =
     parseFloat (toFixed (jsMul (jsDiv (of_nat b) (of_nat v)) 100) 2)"
    unfolding conversionRate_def using v by (simp only: if_True)
  also have "toFixed (jsMul (jsDiv (of_nat b) (of_nat v)) 100) 2 =
     Decimal \<lfloor>jsMul (jsDiv (of_nat b) (of_nat v)) 100 * 100 + 1/2\<rfloor> 2"
    unfolding toFixed_def by simp
  finally show ?thesis .
qed

lemma conversionRate_rounded:
  assumes "0 < v" and "v < 2 ^ 53" and "b < 2 ^ 32"
  shows "roundedTo 2 (of_nat b / of_nat v * 100) (conversionRate (of_nat v) (of_nat b))"
proof -
  define x where "x = jsMul (jsDiv (of_nat b) (of_nat v)) 100"
  define q :: rat where "q = of_nat b / of_nat v"
  have v: "(0::rat) < of_nat v" using assms(1) by simp
  have cr: "conversionRate (of_nat v) (of_nat b) = parseFloat (Decimal \<lfloor>x * 100 + 1/2\<rfloor> 2)"
    unfolding x_def using v by (rule conversionRate_unfold)
  have close: "\<bar>x * 100 - of_int (10000 * int b) / of_nat v\<bar> < 1 / (2 * of_nat v)"
  proof (cases "b = 0")
    case True
    then show ?thesis using v by (simp add: x_def jsMul_def jsDiv_def)
  next
    case False
    have "v \<le> 2 ^ 53" using assms(2) by simp
    then have "(of_nat v :: rat) \<le> of_nat (2 ^ 53)"
      by (simp only: of_nat_le_iff)
    then have "1 / 2 ^ 53 \<le> 1 / (of_nat v :: rat)"
      using v by (simp add: field_simps)
    also have "\<dots> \<le> q"
      using False v unfolding q_def by (intro divide_right_mono) simp_all
    finally have "2 powi (- 1000) \<le> q"
      using tiny by linarith
    then have "\<bar>fl (fl q * 100) - q * 100\<bar> \<le> q * 100 * (3 / 2 ^ 53)"
      by (rule two_roundings) simp
    then have e: "\<bar>x - q * 100\<bar> \<le> q * 100 * (3 / 2 ^ 53)"
      by (simp add: x_def jsMul_def jsDiv_def q_def)
    have "x * 100 - q * 10000 = (x - q * 100) * 100"
      by (simp add: algebra_simps)
    then have "\<bar>x * 100 - q * 10000\<bar> = \<bar>(x - q * 100) * 100\<bar>"
      by (simp only:)
    also have "\<dots> = \<bar>x - q * 100\<bar> * 100"
      by (simp only: abs_mult abs_numeral)
    also have "\<dots> \<le> q * 100 * (3 / 2 ^ 53) * 100"
      using e by (rule mult_right_mono) simp
    also have "\<dots> = of_nat (30000 * b) / 2 ^ 53 / of_nat v"
      by (simp add: q_def)
    also have "\<dots> < (1 / 2) / of_nat v"
    proof -
      have "30000 * b < 2 ^ 52" using assms(3) by simp
      then have "(of_nat (30000 * b) :: rat) < of_nat (2 ^ 52)"
        by (simp only: of_nat_less_iff)
      then have "(of_nat (30000 * b) :: rat) / 2 ^ 53 < 1 / 2"
        by simp
      then show ?thesis using v by (rule divide_strict_right_mono)
    qed
    finally have "\<bar>x * 100 - q * 10000\<bar> < 1 / (2 * of_nat v)"
      by simp
    moreover have "of_int (10000 * int b) / of_nat v = q * 10000"
      by (simp add: q_def)
    ultimately show ?thesis by (simp only:)
  qed
  have "\<bar>of_int \<lfloor>x * 100 + 1/2\<rfloor> - of_int (10000 * int b) / of_nat v\<bar> \<le> (1/2 :: rat)"
    using nearest_of_close [of v "x * 100" "10000 * int b", OF assms(1) close] .
  then have "\<bar>of_int \<lfloor>x * 100 + 1/2\<rfloor> - of_nat b / of_nat v * 100 * 10 ^ 2\<bar> \<le> (1/2 :: rat)"
    by (simp only: scale_10000)
  then have r: "\<bar>of_int \<lfloor>x * 100 + 1/2\<rfloor> - of_nat b / of_nat v * 100 * 10 ^ 2\<bar> \<le> (1/2 :: rat)" .
  show ?thesis
    unfolding roundedTo_def
  proof (intro exI conjI)
    show "conversionRate (of_nat v) (of_nat b) = parseFloat (Decimal \<lfloor>x * 100 + 1/2\<rfloor> 2)"
      by (rule cr)
    show "\<bar>of_int \<lfloor>x * 100 + 1/2\<rfloor> - of_nat b / of_nat v * 100 * 10 ^ 2\<bar> \<le> (1/2 :: rat)"
      by (rule r)
  qed
qed

text \<open>
  Evaluating \<open>fl\<close> at a given number: a bracket for the binade and a significand within less
  than one half determine the result.
\<close>

lemma binade_unique:
  assumes "2 powi k \<le> q" and "q < 2 powi (k + 1)"
  shows "binade q = k"
proof -
  have "(0::rat) < 2 powi k" by simp
  with assms(1) have q: "0 < q" by linarith
  have "k \<le> binade q" using assms(1) by (rule binade_ge)
  moreover have "binade q < k + 1"
  proof (rule ccontr)
    assume "\<not> binade q < k + 1"
    then have "k + 1 \<le> binade q" by simp
    then have "(2::rat) powi (k + 1) \<le> 2 powi (binade q)"
      by (intro power_int_increasing) simp_all
    also have "\<dots> \<le> q" using q by (rule binade_bounds)
    finally show False using assms(2) by simp
  qed
  ultimately show ?thesis by simp
qed

lemma roundHalfEven_eqI:
  assumes "\<bar>of_int m - r\<bar> < 1/2"
  shows "roundHalfEven r = m"
proof (cases "of_int m \<le> r")
  case True
  with assms have "\<lfloor>r\<rfloor> = m" by (intro floor_unique) linarith+
  with assms True show ?thesis by (simp add: roundHalfEven_def Let_def)
next
  case False
  with assms have f: "\<lfloor>r\<rfloor> = m - 1" by (intro floor_unique) (simp; linarith)+
  with assms False show ?thesis by (simp add: roundHalfEven_def Let_def)
qed

lemma fl_eqI:
  assumes "2 powi k \<le> q" and "q < 2 powi (k + 1)" and "- 1022 \<le> k"
    and "\<bar>of_int m - q / 2 powi (k - 52)\<bar> < 1/2"
  shows "fl q = of_int m * 2 powi (k - 52)"
proof -
  have "(0::rat) < 2 powi k" by simp
  with assms(1) have q: "0 < q" by linarith
  have b: "binade q = k" using assms(1,2) by (rule binade_unique)
  have e: "max (binade \<bar>q\<bar> - 52) (- 1074) = k - 52"
    using q b assms(3) by simp
  have "roundHalfEven (q / 2 powi (k - 52)) = m"
    using assms(4) by (rule roundHalfEven_eqI)
  with q e show ?thesis by (simp add: fl_def Let_def)
qed

lemma jsDiv_2_10: "jsDiv 2 10 = 3602879701896397 / 18014398509481984"
proof -
  have "fl (2 / 10) = of_int 7205759403792794 * 2 powi (- 3 - 52)"
    by (rule fl_eqI) simp_all
  then show ?thesis by (simp add: jsDiv_def)
qed

lemma jsMul_100: "jsMul (3602879701896397 / 18014398509481984) 100 = 20"
proof -
  have "fl (3602879701896397 / 18014398509481984 * 100) = of_int 5629499534213120 * 2 powi (4 - 52)"
    by (rule fl_eqI) simp_all
  then show ?thesis by (simp add: jsMul_def)
qed

lemma toFixed_20: "toFixed 20 2 = Decimal 2000 2"
proof -
  have "\<lfloor>(20::rat) * 10 ^ 2 + 1/2\<rfloor> = 2000"
    by (rule floor_unique) simp_all
  then show ?thesis by (simp only: toFixed_def)
qed

lemma parseFloat_2000: "parseFloat (Decimal 2000 2) = 20"
proof -
  have "fl (of_nat 20) = of_nat 20" by (rule fl_of_nat) simp
  then show ?thesis by (simp add: parseFloat_def)
qed

lemma conversionRate_10_2: "conversionRate 10 2 = 20"
  by (simp add: conversionRate_def jsDiv_2_10 jsMul_100 toFixed_20 parseFloat_2000)

lemma foldl_jsAdd_exact:
  assumes "a + sum_list (map f xs) < 2 ^ 53"
  shows "foldl (\<lambda>sum x. jsAdd sum (of_nat (f x))) (of_nat a) xs = of_nat (a + sum_list (map f xs))"
  using assms
proof (induction xs arbitrary: a)
  case Nil
  then show ?case by simp
next
  case (Cons x xs)
  from Cons.prems have "a + f x < 2 ^ 53" by simp
  then have "fl (of_nat (a + f x)) = of_nat (a + f x)" by (rule fl_of_nat)
  then have step: "jsAdd (of_nat a) (of_nat (f x)) = of_nat (a + f x)"
    by (simp add: jsAdd_def)
  from Cons.prems have "(a + f x) + sum_list (map f xs) < 2 ^ 53" by simp
  then have "foldl (\<lambda>sum x. jsAdd sum (of_nat (f x))) (of_nat (a + f x)) xs =
      of_nat ((a + f x) + sum_list (map f xs))"
    by (rule Cons.IH)
  with step show ?case by (simp add: add.assoc)
qed

lemma sumRatings_exact:
  assumes "sum_list (map r_rating rvs) < 2 ^ 53"
  shows "sumRatings rvs = of_nat (sum_list (map r_rating rvs))"
  using foldl_jsAdd_exact [of 0 r_rating rvs] assms by (simp add: sumRatings_def)

lemma totalViews_exact:
  assumes "sum_list (map (\<lambda>p. length (viewedBy p)) props) < 2 ^ 53"
  shows "foldl (\<lambda>sum p. jsAdd sum (of_nat (length (viewedBy p)))) 0 props =
           of_nat (sum_list (map (\<lambda>p. length (viewedBy p)) props))"
  using foldl_jsAdd_exact [of 0 "\<lambda>p. length (viewedBy p)" props] assms by simp

lemma quotient_normal:
  assumes "0 < s" and "0 < l" and "l < 2 ^ 53"
  shows "2 powi (- 1000) \<le> (of_nat s / of_nat l :: rat)"
proof -
  have l: "(0::rat) < of_nat l" using assms(2) by simp
  have "l \<le> 2 ^ 53" using assms(3) by simp
  then have "(of_nat l :: rat) \<le> of_nat (2 ^ 53)"
    by (simp only: of_nat_le_iff)
  then have "1 / 2 ^ 53 \<le> 1 / (of_nat l :: rat)"
    using l by (simp add: field_simps)
  also have "\<dots> \<le> of_nat s / of_nat l"
    using assms(1) l by (intro divide_right_mono) simp_all
  finally show ?thesis
    using tiny by linarith
qed

lemma scaled_bound:
  fixes s l :: nat
  assumes "0 < l" and "c * s < 2 ^ 52"
  shows "(of_nat s / of_nat l :: rat) * (of_nat c / 2 ^ 53) < 1 / (2 * of_nat l)"
proof -
  have l: "(0::rat) < of_nat l" using assms(1) by simp
  have "(of_nat (c * s) :: rat) < of_nat (2 ^ 52)"
    using assms(2) by (simp only: of_nat_less_iff)
  then have "(of_nat (c * s) :: rat) / 2 ^ 53 < 1 / 2"
    by simp
  then have "(of_nat (c * s) :: rat) / 2 ^ 53 / of_nat l < (1 / 2) / of_nat l"
    using l by (rule divide_strict_right_mono)
  then show ?thesis by (simp add: field_simps)
qed

lemma mean_toFixed_rounded:
  assumes "0 < l" and "l < 2 ^ 53" and "s < 2 ^ 47"
  shows "roundedTo 1 (of_nat s / of_nat l)
           (parseFloat (toFixed (jsDiv (of_nat s) (of_nat l)) 1))"
proof -
  define q :: rat where "q = of_nat s / of_nat l"
  define x where "x = fl q"
  have close: "\<bar>x * 10 - of_int (10 * int s) / of_nat l\<bar> < 1 / (2 * of_nat l)"
  proof (cases "s = 0")
    case True
    then show ?thesis using assms(1) by (simp add: x_def q_def)
  next
    case False
    then have "2 powi (- 1000) \<le> q"
      unfolding q_def using assms(1,2) by (intro quotient_normal) simp_all
    moreover have "(2::rat) powi (- 1022) \<le> 2 powi (- 1000)"
      by (rule power_int_increasing) simp_all
    ultimately have "2 powi (- 1022) \<le> q" by linarith
    then have e: "\<bar>x - q\<bar> \<le> q / 2 ^ 53"
      unfolding x_def by (rule fl_rel)
    have "x * 10 - q * 10 = (x - q) * 10" by (simp add: algebra_simps)
    then have "\<bar>x * 10 - q * 10\<bar> = \<bar>(x - q) * 10\<bar>" by (simp only:)
    also have "\<dots> = \<bar>x - q\<bar> * 10" by (simp only: abs_mult abs_numeral)
    also have "\<dots> \<le> q / 2 ^ 53 * 10"
      using e by (rule mult_right_mono) simp
    also have "\<dots> = q * (of_nat 10 / 2 ^ 53)" by simp
    also have "\<dots> < 1 / (2 * of_nat l)"
      unfolding q_def using assms(1,3) by (intro scaled_bound) simp_all
    finally have "\<bar>x * 10 - q * 10\<bar> < 1 / (2 * of_nat l)" .
    moreover have "of_int (10 * int s) / of_nat l = q * 10"
      by (simp add: q_def)
    ultimately show ?thesis by (simp only:)
  qed
  have "\<bar>of_int \<lfloor>x * 10 + 1/2\<rfloor> - of_int (10 * int s) / of_nat l\<bar> \<le> (1/2 :: rat)"
    using nearest_of_close [of l "x * 10" "10 * int s", OF assms(1) close] .
  moreover have "of_int (10 * int s) / of_nat l = (of_nat s / of_nat l :: rat) * 10 ^ 1"
    by simp
  ultimately have r: "\<bar>of_int \<lfloor>x * 10 + 1/2\<rfloor> - of_nat s / of_nat l * 10 ^ 1\<bar> \<le> (1/2 :: rat)"
    by (simp only:)
  have t: "toFixed (jsDiv (of_nat s) (of_nat l)) 1 = Decimal \<lfloor>x * 10 + 1/2\<rfloor> 1"
    by (simp add: toFixed_def jsDiv_def x_def q_def)
  show ?thesis
    unfolding roundedTo_def t
  proof (intro exI conjI)
    show "parseFloat (Decimal \<lfloor>x * 10 + 1/2\<rfloor> 1) = parseFloat (Decimal \<lfloor>x * 10 + 1/2\<rfloor> 1)"
      by (rule refl)
    show "\<bar>of_int \<lfloor>x * 10 + 1/2\<rfloor> - of_nat s / of_nat l * 10 ^ 1\<bar> \<le> (1/2 :: rat)"
      by (rule r)
  qed
qed

lemma mean_round_rounded:
  assumes "0 < l" and "l < 2 ^ 53" and "s < 2 ^ 47"
  shows "roundedTo 1 (of_nat s / of_nat l)
           (jsDiv (Math_round (jsMul (jsDiv (of_nat s) (of_nat l)) 10)) 10)"
proof -
  define q :: rat where "q = of_nat s / of_nat l"
  define x where "x = fl (fl q * 10)"
  have close: "\<bar>x - of_int (10 * int s) / of_nat l\<bar> < 1 / (2 * of_nat l)"
  proof (cases "s = 0")
    case True
    then show ?thesis using assms(1) by (simp add: x_def q_def)
  next
    case False
    then have "2 powi (- 1000) \<le> q"
      unfolding q_def using assms(1,2) by (intro quotient_normal) simp_all
    then have "\<bar>fl (fl q * 10) - q * 10\<bar> \<le> q * 10 * (3 / 2 ^ 53)"
      by (rule two_roundings) simp
    then have "\<bar>x - q * 10\<bar> \<le> q * (of_nat 30 / 2 ^ 53)"
      by (simp add: x_def)
    also have "\<dots> < 1 / (2 * of_nat l)"
      unfolding q_def using assms(1,3) by (intro scaled_bound) simp_all
    finally have "\<bar>x - q * 10\<bar> < 1 / (2 * of_nat l)" .
    moreover have "of_int (10 * int s) / of_nat l = q * 10"
      by (simp add: q_def)
    ultimately show ?thesis by (simp only:)
  qed
  have "\<bar>of_int \<lfloor>x + 1/2\<rfloor> - of_int (10 * int s) / of_nat l\<bar> \<le> (1/2 :: rat)"
    using nearest_of_close [of l x "10 * int s", OF assms(1) close] .
  moreover have "of_int (10 * int s) / of_nat l = (of_nat s / of_nat l :: rat) * 10 ^ 1"
    by simp
  ultimately have r: "\<bar>of_int \<lfloor>x + 1/2\<rfloor> - of_nat s / of_nat l * 10 ^ 1\<bar> \<le> (1/2 :: rat)"
    by (simp only:)
  have t: "jsDiv (Math_round (jsMul (jsDiv (of_nat s) (of_nat l)) 10)) 10 =
           parseFloat (Decimal \<lfloor>x + 1/2\<rfloor> 1)"
    by (simp add: jsDiv_def jsMul_def Math_round_def parseFloat_def x_def q_def)
  show ?thesis
    unfolding roundedTo_def t
  proof (intro exI conjI)
    show "parseFloat (Decimal \<lfloor>x + 1/2\<rfloor> 1) = parseFloat (Decimal \<lfloor>x + 1/2\<rfloor> 1)"
      by (rule refl)
    show "\<bar>of_int \<lfloor>x + 1/2\<rfloor> - of_nat s / of_nat l * 10 ^ 1\<bar> \<le> (1/2 :: rat)"
      by (rule r)
  qed
qed

lemma conversionRate_spec:
  assumes "v < 2 ^ 53" and "b < 2 ^ 32"
  shows "conversionRateSpec v b (conversionRate (of_nat v) (of_nat b))"
proof (cases "v = 0")
  case True
  then show ?thesis by (simp add: conversionRateSpec_def conversionRate_no_views)
next
  case False
  then have "0 < v" by simp
  then have "roundedTo 2 (of_nat b / of_nat v * 100) (conversionRate (of_nat v) (of_nat b))"
    using assms by (rule conversionRate_rounded)
  with False show ?thesis by (simp add: conversionRateSpec_def)
qed

text \<open>
  Claim C6. With fewer than 2^32 bookings and fewer than 2^53 views, the conversion rate
  of both analytics routes is 0 when there are no views, and otherwise the double of a
  two-decimal number nearest to bookings / views * 100; 10 views and 2 bookings give 20.
\<close>

theorem C6_conversion_rate:
  assumes "sum_list (map (\<lambda>p. length (viewedBy p)) props) < 2 ^ 53" and "length bks < 2 ^ 32"
    and "p_views prop < 2 ^ 53" and "p_bookings prop < 2 ^ 32"
  shows "conversionRateSpec (sum_list (map (\<lambda>p. length (viewedBy p)) props)) (length bks)
           (fst (ownerAnalytics props bks rvs)) \<and>
         conversionRateSpec (p_views prop) (p_bookings prop) (propertyConversionRate prop) \<and>
         (p_views prop = 10 \<and> p_bookings prop = 2 \<longrightarrow> propertyConversionRate prop = 20)"
proof (intro conjI impI)
  have "fst (ownerAnalytics props bks rvs) =
      conversionRate (of_nat (sum_list (map (\<lambda>p. length (viewedBy p)) props))) (of_nat (length bks))"
    using totalViews_exact [OF assms(1)] by (simp add: ownerAnalytics_def Let_def)
  then show "conversionRateSpec (sum_list (map (\<lambda>p. length (viewedBy p)) props)) (length bks)
           (fst (ownerAnalytics props bks rvs))"
    using conversionRate_spec [OF assms(1,2)] by (simp only:)
  show "conversionRateSpec (p_views prop) (p_bookings prop) (propertyConversionRate prop)"
    unfolding propertyConversionRate_def using assms(3,4) by (rule conversionRate_spec)
next
  assume "p_views prop = 10 \<and> p_bookings prop = 2"
  then show "propertyConversionRate prop = 20"
    by (simp add: propertyConversionRate_def conversionRate_10_2)
qed

lemma sum_ratings_le:
  assumes "\<forall>r \<in> set rvs. r_rating r \<le> 5"
  shows "sum_list (map r_rating rvs) \<le> 5 * length rvs"
  using assms by (induction rvs) auto

text \<open>
  Claim C7. For ratings up to 5 and fewer than 2^32 reviews, the average rating of the
  owner analytics (by \<open>toFixed(1)\<close>) and of the property detail (by \<open>Math.round\<close>) is 0
  when there are no reviews, and otherwise the double of a one-decimal number nearest to
  the sum of the ratings divided by their count.
\<close>

theorem C7_average_rating:
  assumes "\<forall>r \<in> set rvs. r_rating r \<le> 5" and "length rvs < 2 ^ 32"
  shows "averageRatingSpec (map r_rating rvs) (snd (ownerAnalytics props bks rvs)) \<and>
         averageRatingSpec (map r_rating rvs) (detailAverageRating rvs)"
proof (cases "rvs = []")
  case True
  moreover have "\<lfloor>1 / 2 :: rat\<rfloor> = 0"
    by (rule floor_unique) simp_all
  ultimately show ?thesis
    by (simp add: averageRatingSpec_def ownerAnalytics_def detailAverageRating_def Let_def
        jsMul_def jsDiv_def Math_round_def)
next
  case False
  define s where "s = sum_list (map r_rating rvs)"
  define l where "l = length rvs"
  have l: "0 < l" "l < 2 ^ 53"
    using False assms(2) by (simp_all add: l_def)
  have "s \<le> 5 * l"
    unfolding s_def l_def using assms(1) by (rule sum_ratings_le)
  also have "\<dots> < 2 ^ 47" using assms(2) by (simp add: l_def)
  finally have s: "s < 2 ^ 47" .
  then have "sum_list (map r_rating rvs) < 2 ^ 53" by (simp add: s_def)
  then have sr: "sumRatings rvs = of_nat s"
    unfolding s_def by (rule sumRatings_exact)
  have a: "snd (ownerAnalytics props bks rvs) = parseFloat (toFixed (jsDiv (of_nat s) (of_nat l)) 1)"
    using False by (simp add: ownerAnalytics_def Let_def sr l_def)
  have b: "detailAverageRating rvs = jsDiv (Math_round (jsMul (jsDiv (of_nat s) (of_nat l)) 10)) 10"
    using False by (simp add: detailAverageRating_def Let_def sr l_def)
  have "roundedTo 1 (of_nat s / of_nat l) (snd (ownerAnalytics props bks rvs))"
    unfolding a using l s by (rule mean_toFixed_rounded)
  moreover have "roundedTo 1 (of_nat s / of_nat l) (detailAverageRating rvs)"
    unfolding b using l s by (rule mean_round_rounded)
  ultimately show ?thesis
    using False by (simp add: averageRatingSpec_def s_def l_def)
qed

text \<open>
  One property with 10 recorded views and 2 bookings; a property whose counters read 10
  and 2.
\<close>

theorem C6_conversion_rate_witness:
  "sum_list (map (\<lambda>p. length (viewedBy p)) [flat\<lparr>viewedBy := replicate 10 (viewBy None 0)\<rparr>]) < 2 ^ 53 \<and>
   length [visitOf ''b1'' ''tenantA'' ''pending'', visitOf ''b2'' ''tenantB'' ''pending''] < 2 ^ 32 \<and>
   p_views (flat\<lparr>p_views := 10, p_bookings := 2\<rparr>) < 2 ^ 53 \<and>
   p_bookings (flat\<lparr>p_views := 10, p_bookings := 2\<rparr>) < 2 ^ 32 \<and>
   conversionRateSpec 10 2
     (fst (ownerAnalytics [flat\<lparr>viewedBy := replicate 10 (viewBy None 0)\<rparr>]
        [visitOf ''b1'' ''tenantA'' ''pending'', visitOf ''b2'' ''tenantB'' ''pending''] [])) \<and>
   propertyConversionRate (flat\<lparr>p_views := 10, p_bookings := 2\<rparr>) = 20"
proof -
  have h1: "sum_list (map (\<lambda>p. length (viewedBy p)) [flat\<lparr>viewedBy := replicate 10 (viewBy None 0)\<rparr>]) < 2 ^ 53"
    by simp
  have h2: "length [visitOf ''b1'' ''tenantA'' ''pending'', visitOf ''b2'' ''tenantB'' ''pending''] < 2 ^ 32"
    by simp
  have h3: "p_views (flat\<lparr>p_views := 10, p_bookings := 2\<rparr>) < 2 ^ 53"
    by simp
  have h4: "p_bookings (flat\<lparr>p_views := 10, p_bookings := 2\<rparr>) < 2 ^ 32"
    by simp
  have sm: "sum_list (map (\<lambda>p. length (viewedBy p)) [flat\<lparr>viewedBy := replicate 10 (viewBy None 0)\<rparr>]) = 10"
    by simp
  have len: "length [visitOf ''b1'' ''tenantA'' ''pending'', visitOf ''b2'' ''tenantB'' ''pending''] = 2"
    by simp
  note inst = C6_conversion_rate [OF h1 h2 h3 h4, of "[]"]
  from inst have "conversionRateSpec
     (sum_list (map (\<lambda>p. length (viewedBy p)) [flat\<lparr>viewedBy := replicate 10 (viewBy None 0)\<rparr>]))
     (length [visitOf ''b1'' ''tenantA'' ''pending'', visitOf ''b2'' ''tenantB'' ''pending''])
     (fst (ownerAnalytics [flat\<lparr>viewedBy := replicate 10 (viewBy None 0)\<rparr>]
        [visitOf ''b1'' ''tenantA'' ''pending'', visitOf ''b2'' ''tenantB'' ''pending''] []))"
    by (rule conjunct1)
  then have a: "conversionRateSpec 10 2
     (fst (ownerAnalytics [flat\<lparr>viewedBy := replicate 10 (viewBy None 0)\<rparr>]
        [visitOf ''b1'' ''tenantA'' ''pending'', visitOf ''b2'' ''tenantB'' ''pending''] []))"
    by (simp only: sm len)
  from inst have b: "propertyConversionRate (flat\<lparr>p_views := 10, p_bookings := 2\<rparr>) = 20"
    by simp
  from h1 h2 h3 h4 a b show ?thesis by blast
qed

text \<open>
  Three reviews rated 4, 5 and 4; and no review at all.
\<close>

theorem C7_average_rating_witness:
  "r_rating (rated 4) \<le> 5 \<and> r_rating (rated 5) \<le> 5 \<and>
   length [rated 4, rated 5, rated 4] < 2 ^ 32 \<and>
   averageRatingSpec [4, 5, 4] (snd (ownerAnalytics [] [] [rated 4, rated 5, rated 4])) \<and>
   averageRatingSpec [4, 5, 4] (detailAverageRating [rated 4, rated 5, rated 4]) \<and>
   snd (ownerAnalytics [] [] []) = 0 \<and> detailAverageRating [] = 0"
proof -
  have h1: "\<forall>r \<in> set [rated 4, rated 5, rated 4]. r_rating r \<le> 5"
    by (simp add: rated_def)
  have h2: "length [rated 4, rated 5, rated 4] < 2 ^ 32"
    by simp
  from C7_average_rating [OF h1 h2, of "[]" "[]"]
  have a: "averageRatingSpec [4, 5, 4] (snd (ownerAnalytics [] [] [rated 4, rated 5, rated 4]))"
    and b: "averageRatingSpec [4, 5, 4] (detailAverageRating [rated 4, rated 5, rated 4])"
    by (simp_all add: rated_def)
  have e1: "\<forall>r \<in> set ([] :: review list). r_rating r \<le> 5" by simp
  have e2: "length ([] :: review list) < 2 ^ 32" by simp
  from C7_average_rating [OF e1 e2, of "[]" "[]"]
  have "snd (ownerAnalytics [] [] []) = 0" and "detailAverageRating [] = 0"
    by (simp_all add: averageRatingSpec_def)
  moreover have "r_rating (rated 4) \<le> 5" and "r_rating (rated 5) \<le> 5"
    by (simp_all add: rated_def)
  ultimately show ?thesis using h2 a b by blast
qed


end
